theory Spec2Isabelle
  imports Main "HOL-Library.Word"
begin

section \<open>The encounter contract (EncounterSystem)\<close>

text \<open>
  The contract is Solidity \<open>>=0.8.0\<close>: arithmetic on \<open>uint32\<close> and \<open>uint256\<close> is
  checked and panics (code 0x11) instead of wrapping, an array read out of bounds panics
  (code 0x32), and a failed \<open>require\<close> reverts with its message. A call that fails
  returns \<open>Inl\<close> of the error; the chain then keeps the state the call started from.
\<close>

type_synonym bytes32 = "256 word"
type_synonym address = "160 word"
type_synonym uint256 = "256 word"
type_synonym uint32 = "32 word"

datatype evm_error = Revert string | Panic nat

text \<open>
  The tables the contract reads and writes. \<open>entropyNonce\<close> is the contract's own
  storage variable (declared, never used by the three functions).
\<close>

record 'm world =
  EncounterTable :: "bytes32 \<rightharpoonup> (uint256 \<times> bytes32 list)"
  OwnedByTable :: "bytes32 \<rightharpoonup> bytes32"
  MonsterTable :: "bytes32 \<rightharpoonup> 'm"
  HealthTable :: "bytes32 \<rightharpoonup> uint32"
  StrengthTable :: "bytes32 \<rightharpoonup> uint32"
  entropyNonce :: uint256

text \<open>
  What a call sees of its surroundings: the sender, the block's difficulty, and the two
  functions the source imports or calls as primitives, \<open>addressToEntityKey\<close> and
  \<open>keccak256(abi.encode(player, monster, actionCount, block.difficulty))\<close>, taken
  as parameters.
\<close>

record call_context =
  msgSender :: address
  block_difficulty :: uint256
  addressToEntityKey :: "address \<Rightarrow> bytes32"
  keccak256_encode :: "bytes32 \<Rightarrow> bytes32 \<Rightarrow> uint256 \<Rightarrow> uint256 \<Rightarrow> uint256"

text \<open>
  Modelled from the spec: the table libraries (\<open>../tables/Encounter.sol\<close>,
  \<open>OwnedBy.sol\<close>, \<open>Monster.sol\<close>, \<open>Health.sol\<close>, \<open>Strength.sol\<close>) are generated
  code that is not among the sources. A component is a mapping from entity to a typed
  value; an encounter record is \<open>{actionCount, monsterList}\<close> and its absence is the
  "not in encounter" state, with no sentinel value: reading an absent record gives the
  zero value of every field.
\<close>

definition Encounter_get :: "'m world \<Rightarrow> bytes32 \<Rightarrow> uint256 \<times> bytes32 list" where
  "Encounter_get s key = (case EncounterTable s key of None \<Rightarrow> (0, []) | Some r \<Rightarrow> r)"

definition Encounter_deleteRecord :: "bytes32 \<Rightarrow> 'm world \<Rightarrow> 'm world" where
  "Encounter_deleteRecord key s = s\<lparr>EncounterTable := (EncounterTable s)(key := None)\<rparr>"

definition Encounter_setActionCount :: "bytes32 \<Rightarrow> uint256 \<Rightarrow> 'm world \<Rightarrow> 'm world" where
  "Encounter_setActionCount key n s =
     s\<lparr>EncounterTable := (EncounterTable s)(key \<mapsto> (n, snd (Encounter_get s key)))\<rparr>"

definition OwnedBy_set :: "bytes32 \<Rightarrow> bytes32 \<Rightarrow> 'm world \<Rightarrow> 'm world" where
  "OwnedBy_set key v s = s\<lparr>OwnedByTable := (OwnedByTable s)(key \<mapsto> v)\<rparr>"

definition Monster_deleteRecord :: "bytes32 \<Rightarrow> 'm world \<Rightarrow> 'm world" where
  "Monster_deleteRecord key s = s\<lparr>MonsterTable := (MonsterTable s)(key := None)\<rparr>"

definition Health_get :: "'m world \<Rightarrow> bytes32 \<Rightarrow> uint32" where
  "Health_get s key = (case HealthTable s key of None \<Rightarrow> 0 | Some h \<Rightarrow> h)"

definition Health_set :: "bytes32 \<Rightarrow> uint32 \<Rightarrow> 'm world \<Rightarrow> 'm world" where
  "Health_set key v s = s\<lparr>HealthTable := (HealthTable s)(key \<mapsto> v)\<rparr>"

definition Strength_get :: "'m world \<Rightarrow> bytes32 \<Rightarrow> uint32" where
  "Strength_get s key = (case StrengthTable s key of None \<Rightarrow> 0 | Some v \<Rightarrow> v)"

text \<open>
  \<open>throwBall\<close>, statement by statement: the \<open>require\<close>, the read of \<open>monsters[0]\<close>,
  the hash, and the three branches. \<open>++actionCount\<close> is a checked increment.
\<close>

definition throwBall :: "call_context \<Rightarrow> 'm world \<Rightarrow> evm_error + 'm world" where
  "throwBall ctx s =
     (let player = addressToEntityKey ctx (msgSender ctx);
          (actionCount, monsters) = Encounter_get s player
      in if actionCount = 0 then Inl (Revert ''not in this encounter'')
         else case monsters of
           [] \<Rightarrow> Inl (Panic 0x32)
         | monster # _ \<Rightarrow>
             let rand = keccak256_encode ctx player monster actionCount (block_difficulty ctx)
             in if rand mod 2 = 0
                then Inr (Encounter_deleteRecord player (OwnedBy_set monster player s))
                else if actionCount > 2
                then Inr (Monster_deleteRecord monster (Encounter_deleteRecord player s))
                else if actionCount = - 1 then Inl (Panic 0x11)
                else Inr (Encounter_setActionCount player (actionCount + 1) s))"

definition flee :: "call_context \<Rightarrow> 'm world \<Rightarrow> evm_error + 'm world" where
  "flee ctx s =
     (let player = addressToEntityKey ctx (msgSender ctx)
      in Inr (Encounter_deleteRecord player s))"

text \<open>
  \<open>attack\<close>: no \<open>require\<close>; \<open>monsters[0]\<close> is read whatever \<open>actionCount\<close> is, and
  \<open>monsterHealth - playerDamage\<close> is a checked \<open>uint32\<close> subtraction.
\<close>

definition attack :: "call_context \<Rightarrow> 'm world \<Rightarrow> evm_error + 'm world" where
  "attack ctx s =
     (let player = addressToEntityKey ctx (msgSender ctx);
          (actionCount, monsters) = Encounter_get s player
      in case monsters of
           [] \<Rightarrow> Inl (Panic 0x32)
         | monster # _ \<Rightarrow>
             let playerDamage = Strength_get s player;
                 monsterHealth = Health_get s monster
             in if monsterHealth < playerDamage then Inl (Panic 0x11)
                else Inr (Health_set monster (monsterHealth - playerDamage) s))"

text \<open>The state of the chain after a call: a call that failed changes nothing.\<close>

definition state_after :: "'m world \<Rightarrow> evm_error + 'm world \<Rightarrow> 'm world" where
  "state_after s r = (case r of Inl _ \<Rightarrow> s | Inr s' \<Rightarrow> s')"

text \<open>Concrete states and call contexts, used to run the functions on examples.\<close>

definition sample_context :: "uint256 \<Rightarrow> call_context" where
  "sample_context d =
     \<lparr>msgSender = 7, block_difficulty = d, addressToEntityKey = ucast,
      keccak256_encode = (\<lambda>player monster actionCount difficulty.
        player + monster + actionCount + difficulty)\<rparr>"

definition sample_world :: "uint256 \<Rightarrow> uint32 \<Rightarrow> uint32 \<Rightarrow> nat world" where
  "sample_world n h d =
     \<lparr>EncounterTable = [7 \<mapsto> (n, [9])], OwnedByTable = Map.empty, MonsterTable = [9 \<mapsto> 1],
      HealthTable = [9 \<mapsto> h], StrengthTable = [7 \<mapsto> d], entropyNonce = 0\<rparr>"

definition empty_world :: "nat world" where
  "empty_world =
     \<lparr>EncounterTable = Map.empty, OwnedByTable = Map.empty, MonsterTable = Map.empty,
      HealthTable = Map.empty, StrengthTable = Map.empty, entropyNonce = 0\<rparr>"

definition two_player_world :: "nat world" where
  "two_player_world =
     \<lparr>EncounterTable = [7 \<mapsto> (1, [9]), 8 \<mapsto> (2, [10])], OwnedByTable = [11 \<mapsto> 8],
      MonsterTable = [9 \<mapsto> 1, 10 \<mapsto> 2, 11 \<mapsto> 3], HealthTable = [9 \<mapsto> 5, 10 \<mapsto> 6],
      StrengthTable = [7 \<mapsto> 10, 9 \<mapsto> 4], entropyNonce = 0\<rparr>"

section \<open>The client's action layer (setup)\<close>

subsection \<open>Numbers\<close>

text \<open>
  Coordinates and map sizes are JavaScript numbers holding integers. \<open>%\<close> is the
  truncating remainder (the sign of the dividend) and gives \<open>NaN\<close> for a zero divisor;
  \<open>NaN\<close> is absorbed by \<open>+\<close> and \<open>%\<close> and is \<open>===\<close> to nothing.
\<close>

datatype number = Num int | NaN

fun js_add :: "number \<Rightarrow> number \<Rightarrow> number" where
  "js_add (Num a) (Num b) = Num (a + b)"
| "js_add _ _ = NaN"

fun js_rem :: "number \<Rightarrow> number \<Rightarrow> number" where
  "js_rem (Num a) (Num b) = (if b = 0 then NaN else Num (sgn a * (\<bar>a\<bar> mod \<bar>b\<bar>)))"
| "js_rem _ _ = NaN"

fun strict_equal :: "number \<Rightarrow> number \<Rightarrow> bool" where
  "strict_equal (Num a) (Num b) = (a = b)"
| "strict_equal _ _ = False"

subsection \<open>State of the client\<close>

type_synonym entity = nat
type_synonym position = "number \<times> number"

datatype js_error = Error string

record mapConfig =
  width :: number
  height :: number

record 'v override =
  oid :: string
  entity :: entity
  val :: 'v

text \<open>
  What a call does to the world outside the component store, in order: the overrides it
  adds and removes, the operations it hands to the transaction executor, and the lines it
  writes to the console.
\<close>

datatype effect =
    AddPositionOverride string entity position
  | RemovePositionOverride string
  | AddPlayerOverride string entity bool
  | RemovePlayerOverride string
  | Submit string "number list"
  | Warn string
  | LogError js_error

text \<open>
  The client: \<open>result.playerEntity\<close>, whether \<open>fastTxExecutor\<close> is non-null, the
  replica of the components the actions read (each a finite table from entity to value,
  \<open>MapConfig\<close> holding the value of the singleton entity, \<open>Encounter\<close> the
  \<open>monsters\<close> of each encounter, the one field the client reads), the world's registry
  of entities (\<open>world.entityToIndex\<close> and \<open>world.entities\<close>), the live overrides of
  the two overridable components the actions write, and the effects so far.
\<close>

record client =
  playerEntity :: "entity option"
  fastTxExecutor :: bool
  MapConfig :: "mapConfig option"
  Obstruction :: "(entity \<times> bool) list"
  Position :: "(entity \<times> position) list"
  Player :: "(entity \<times> bool) list"
  Encounter :: "(entity \<times> string list) list"
  OwnedBy :: "(entity \<times> string) list"
  entityToIndex :: "(string \<times> entity) list"
  entities :: "string list"
  PositionOverrides :: "position override list"
  PlayerOverrides :: "bool override list"
  effects :: "effect list"

text \<open>
  How an awaited promise settles. \<open>Pending\<close> is the promise that never settles: the
  code after the \<open>await\<close> never runs.
\<close>

datatype 'a settled = Fulfilled 'a | Rejected js_error | Pending

text \<open>How a call of an action ends: its promise resolves, rejects, or never settles.\<close>

datatype completion = Returned | Threw js_error | Suspended

record tx =
  hash :: string

text \<open>
  The surroundings of one action call: the identifiers \<open>uuid()\<close> returns (first and
  second call), how \<open>fastTxExecutor.fastTxExecute\<close> and the transaction it returns
  settle, and what the stream \<open>txReduced$\<close> emits from now on. The last two fields serve
  \<open>throwBall\<close>, the one action that reads the replica after its wait: \<open>reduced\<close> is the
  client as the synchronisation with the ledger has left it when the wait ends, and
  \<open>normalizeEntityID\<close> is the library function of that name, taken as a parameter.
\<close>

record env =
  uuid1 :: string
  uuid2 :: string
  fastTxExecute :: "tx settled"
  txReduced :: "string list"
  reduced :: "client \<Rightarrow> client"
  normalizeEntityID :: "string \<Rightarrow> string"

subsection \<open>Overridable components\<close>

text \<open>
  Modelled from the spec: \<open>overridableComponent\<close> and \<open>getComponentValue\<close> belong to
  the library \<open>@latticexyz/recs\<close>, which is not among the sources. An override is
  \<open>{id, entity, component, value}\<close>; several may exist for one entity and component;
  a read returns the value of the most recently added override that is still present,
  else the authoritative value; removing an override by id is idempotent.
\<close>

definition addOverride :: "string \<Rightarrow> entity \<Rightarrow> 'v \<Rightarrow> 'v override list \<Rightarrow> 'v override list" where
  "addOverride i e v ovs = ovs @ [\<lparr>oid = i, entity = e, val = v\<rparr>]"

definition removeOverride :: "string \<Rightarrow> 'v override list \<Rightarrow> 'v override list" where
  "removeOverride i ovs = filter (\<lambda>ov. oid ov \<noteq> i) ovs"

definition getComponentValue :: "(entity \<times> 'v) list \<Rightarrow> entity \<Rightarrow> 'v option" where
  "getComponentValue component e = map_of component e"

definition getOverriddenValue ::
  "'v override list \<Rightarrow> (entity \<times> 'v) list \<Rightarrow> entity \<Rightarrow> 'v option" where
  "getOverriddenValue ovs component e =
     (case filter (\<lambda>ov. entity ov = e) ovs of
        [] \<Rightarrow> getComponentValue component e
      | ov # later \<Rightarrow> Some (val (last (ov # later))))"

definition Position_addOverride :: "string \<Rightarrow> entity \<Rightarrow> position \<Rightarrow> client \<Rightarrow> client" where
  "Position_addOverride i e v c =
     c\<lparr>PositionOverrides := addOverride i e v (PositionOverrides c),
       effects := effects c @ [AddPositionOverride i e v]\<rparr>"

definition Position_removeOverride :: "string \<Rightarrow> client \<Rightarrow> client" where
  "Position_removeOverride i c =
     c\<lparr>PositionOverrides := removeOverride i (PositionOverrides c),
       effects := effects c @ [RemovePositionOverride i]\<rparr>"

definition Player_addOverride :: "string \<Rightarrow> entity \<Rightarrow> bool \<Rightarrow> client \<Rightarrow> client" where
  "Player_addOverride i e v c =
     c\<lparr>PlayerOverrides := addOverride i e v (PlayerOverrides c),
       effects := effects c @ [AddPlayerOverride i e v]\<rparr>"

definition Player_removeOverride :: "string \<Rightarrow> client \<Rightarrow> client" where
  "Player_removeOverride i c =
     c\<lparr>PlayerOverrides := removeOverride i (PlayerOverrides c),
       effects := effects c @ [RemovePlayerOverride i]\<rparr>"

text \<open>
  Modelled from the spec: \<open>awaitStreamValue\<close> belongs to \<open>@latticexyz/utils\<close>, which is
  not among the sources. The wait resolves the first time the stream emits a value that
  matches; it does not resolve for values that do not match, and it never resolves if no
  matching value is ever emitted. It has no other outcome.
\<close>

definition awaitStreamValue :: "env \<Rightarrow> (string \<Rightarrow> bool) \<Rightarrow> string settled" where
  "awaitStreamValue env predicate =
     (case filter predicate (txReduced env) of
        v # _ \<Rightarrow> Fulfilled v
      | [] \<Rightarrow> Pending)"

subsection \<open>The actions\<close>

text \<open>
  \<open>bindFastTxExecute(worldContract)\<close>: without an executor it throws before anything is
  submitted; otherwise the operation goes to the executor, and a failure is written to the
  console and thrown again.
\<close>

definition worldSend :: "env \<Rightarrow> string \<Rightarrow> number list \<Rightarrow> client \<Rightarrow> client \<times> tx settled" where
  "worldSend env func args c =
     (if \<not> fastTxExecutor c then (c, Rejected (Error ''no signer''))
      else let c' = c\<lparr>effects := effects c @ [Submit func args]\<rparr>
           in case fastTxExecute env of
                Fulfilled t \<Rightarrow> (c', Fulfilled t)
              | Rejected e \<Rightarrow> (c'\<lparr>effects := effects c' @ [LogError e]\<rparr>, Rejected e)
              | Pending \<Rightarrow> (c', Pending))"

definition wrapPosition :: "client \<Rightarrow> number \<Rightarrow> number \<Rightarrow> js_error + position" where
  "wrapPosition c x y =
     (case MapConfig c of
        None \<Rightarrow> Inl (Error ''mapConfig no yet loaded or initialized'')
      | Some mapConfig \<Rightarrow>
          Inr (js_rem (js_add x (width mapConfig)) (width mapConfig),
               js_rem (js_add y (height mapConfig)) (height mapConfig)))"

text \<open>
  \<open>runQuery([Has(Obstruction), HasValue(Position, {x, y})])\<close>: the entities that have an
  obstruction value and whose position, read through the overrides, has both fields
  \<open>===\<close> to the given ones.
\<close>

definition runQuery :: "client \<Rightarrow> number \<Rightarrow> number \<Rightarrow> entity list" where
  "runQuery c x y =
     filter (\<lambda>e. case getOverriddenValue (PositionOverrides c) (Position c) e of
                    None \<Rightarrow> False
                  | Some p \<Rightarrow> strict_equal x (fst p) \<and> strict_equal y (snd p))
       (map fst (Obstruction c))"

definition isObstructed :: "client \<Rightarrow> number \<Rightarrow> number \<Rightarrow> bool" where
  "isObstructed c x y = (length (runQuery c x y) > 0)"

text \<open>
  The body of the \<open>try\<close> block of \<open>moveTo\<close> and \<open>spawn\<close>, and of the other actions
  after their checks: send the operation, then wait for the stream to emit the
  transaction's hash. An \<open>await\<close> throws what its promise rejects with; the wait for the
  stream never rejects.
\<close>

definition send_and_await :: "env \<Rightarrow> string \<Rightarrow> number list \<Rightarrow> client \<Rightarrow> client \<times> completion" where
  "send_and_await env func args c =
     (case worldSend env func args c of
        (c', Rejected e) \<Rightarrow> (c', Threw e)
      | (c', Pending) \<Rightarrow> (c', Suspended)
      | (c', Fulfilled t) \<Rightarrow>
          (case awaitStreamValue env (\<lambda>txHash. txHash = hash t) of
             Fulfilled _ \<Rightarrow> (c', Returned)
           | Rejected e \<Rightarrow> (c', Threw e)
           | Pending \<Rightarrow> (c', Suspended)))"

text \<open>
  \<open>try { ... } finally { ... }\<close>: the \<open>finally\<close> block runs when the body returns or
  throws, and not while the body is still waiting.
\<close>

definition try_finally ::
  "(client \<Rightarrow> client \<times> completion) \<Rightarrow> (client \<Rightarrow> client) \<Rightarrow> client \<Rightarrow> client \<times> completion" where
  "try_finally body cleanup c =
     (case body c of
        (c', Suspended) \<Rightarrow> (c', Suspended)
      | (c', Returned) \<Rightarrow> (cleanup c', Returned)
      | (c', Threw e) \<Rightarrow> (cleanup c', Threw e))"

text \<open>
  \<open>moveTo\<close> and \<open>spawn\<close>. \<open>!result.playerEntity\<close> holds when there is no player
  entity and also for the entity index 0, which is falsy.
\<close>

definition moveTo :: "env \<Rightarrow> number \<Rightarrow> number \<Rightarrow> client \<Rightarrow> client \<times> completion" where
  "moveTo env x y c =
     (case playerEntity c of
        None \<Rightarrow> (c, Threw (Error ''no player''))
      | Some player \<Rightarrow>
          if player = 0 then (c, Threw (Error ''no player''))
          else
            (case wrapPosition c x y of
               Inl e \<Rightarrow> (c, Threw e)
             | Inr (wrappedX, wrappedY) \<Rightarrow>
                 if isObstructed c wrappedX wrappedY
                 then (c\<lparr>effects := effects c @ [Warn ''cannot move to obstructed space'']\<rparr>,
                       Returned)
                 else if getComponentValue (Encounter c) player \<noteq> None
                 then (c\<lparr>effects := effects c @ [Warn ''cannot move while in encounter'']\<rparr>,
                       Returned)
                 else
                   let positionId = uuid1 env
                   in try_finally (send_and_await env ''move'' [x, y])
                        (Position_removeOverride positionId)
                        (Position_addOverride positionId player (wrappedX, wrappedY) c)))"

definition spawn :: "env \<Rightarrow> number \<Rightarrow> number \<Rightarrow> client \<Rightarrow> client \<times> completion" where
  "spawn env x y c =
     (case playerEntity c of
        None \<Rightarrow> (c, Threw (Error ''no player''))
      | Some player \<Rightarrow>
          if player = 0 then (c, Threw (Error ''no player''))
          else
            let canSpawn =
              (getOverriddenValue (PlayerOverrides c) (Player c) player \<noteq> Some True)
            in if \<not> canSpawn then (c, Threw (Error ''already spawned''))
            else
              (case wrapPosition c x y of
                 Inl e \<Rightarrow> (c, Threw e)
               | Inr (wrappedX, wrappedY) \<Rightarrow>
                   if isObstructed c wrappedX wrappedY
                   then (c\<lparr>effects := effects c @ [Warn ''cannot spawn on obstructed space'']\<rparr>,
                         Returned)
                   else
                     let positionId = uuid1 env;
                         c1 = Position_addOverride positionId player (wrappedX, wrappedY) c;
                         playerId = uuid2 env;
                         c2 = Player_addOverride playerId player True c1
                     in try_finally (send_and_await env ''spawn'' [wrappedX, wrappedY])
                          (\<lambda>c'. Player_removeOverride playerId
                                  (Position_removeOverride positionId c'))
                          c2))"

text \<open>
  \<open>moveBy\<close>: the player's position is read through the overrides, and the rest is
  \<open>moveTo\<close>.
\<close>

definition moveBy :: "env \<Rightarrow> number \<Rightarrow> number \<Rightarrow> client \<Rightarrow> client \<times> completion" where
  "moveBy env deltaX deltaY c =
     (case playerEntity c of
        None \<Rightarrow> (c, Threw (Error ''no player''))
      | Some player \<Rightarrow>
          if player = 0 then (c, Threw (Error ''no player''))
          else
            (case getOverriddenValue (PositionOverrides c) (Position c) player of
               None \<Rightarrow>
                 (c\<lparr>effects := effects c @
                      [Warn ''cannot moveBy without a player position, not yet spawned?'']\<rparr>,
                  Returned)
             | Some playerPosition \<Rightarrow>
                 moveTo env (js_add (fst playerPosition) deltaX)
                   (js_add (snd playerPosition) deltaY) c))"

text \<open>
  The client's \<open>throwBall\<close> (named \<open>throwBall_client\<close> here, next to the contract's
  function of the same name): two checks, then the operation is sent and awaited with no
  override, and the result is read off the replica as it is after the wait. In
  \<open>monster && owner && ...\<close> the entity index 0 and the empty string are falsy, and
  \<open>world.entities[player]\<close> is undefined beyond the end of the array.
\<close>

definition hasCaught :: "env \<Rightarrow> client \<Rightarrow> entity \<Rightarrow> string list \<Rightarrow> bool" where
  "hasCaught env view player monsters =
     list_ex (\<lambda>monsterId.
        case map_of (entityToIndex view) monsterId of
          None \<Rightarrow> False
        | Some monster \<Rightarrow>
            if monster = 0 then False
            else
              (case getComponentValue (OwnedBy view) monster of
                 None \<Rightarrow> False
               | Some owner \<Rightarrow>
                   owner \<noteq> [] \<and> player < length (entities view)
                   \<and> normalizeEntityID env owner = entities view ! player))
       monsters"

definition throwBall_client :: "env \<Rightarrow> client \<Rightarrow> client \<times> string settled" where
  "throwBall_client env c =
     (case playerEntity c of
        None \<Rightarrow> (c, Rejected (Error ''no player''))
      | Some player \<Rightarrow>
          if player = 0 then (c, Rejected (Error ''no player''))
          else
            (case getComponentValue (Encounter c) player of
               None \<Rightarrow> (c, Rejected (Error ''no encounter''))
             | Some encounter \<Rightarrow>
                 (case send_and_await env ''throwBall'' [] c of
                    (c', Threw e) \<Rightarrow> (c', Rejected e)
                  | (c', Suspended) \<Rightarrow> (c', Pending)
                  | (c', Returned) \<Rightarrow>
                      let view = reduced env c'
                      in if hasCaught env view player encounter then (c', Fulfilled ''caught'')
                         else if getComponentValue (Encounter view) player = None
                         then (c', Fulfilled ''fled'')
                         else (c', Fulfilled ''miss''))))"

text \<open>
  The client's \<open>attack\<close> (named \<open>attack_client\<close> here) and \<open>fleeEncounter\<close>: the
  operation is sent and awaited, with no check and no override.
\<close>

definition attack_client :: "env \<Rightarrow> client \<Rightarrow> client \<times> completion" where
  "attack_client env c = send_and_await env ''attack'' [] c"

definition fleeEncounter :: "env \<Rightarrow> client \<Rightarrow> client \<times> completion" where
  "fleeEncounter env c = send_and_await env ''flee'' [] c"

text \<open>The parts of the client's state the properties speak of.\<close>

definition replica_store ::
  "client \<Rightarrow> mapConfig option \<times> (entity \<times> bool) list \<times> (entity \<times> position) list
     \<times> (entity \<times> bool) list \<times> (entity \<times> string list) list \<times> (entity \<times> string) list" where
  "replica_store c =
     (MapConfig c, Obstruction c, Position c, Player c, Encounter c, OwnedBy c)"

definition live_overrides :: "client \<Rightarrow> position override list \<times> bool override list" where
  "live_overrides c = (PositionOverrides c, PlayerOverrides c)"

fun is_Submit :: "effect \<Rightarrow> bool" where
  "is_Submit (Submit _ _) = True"
| "is_Submit _ = False"

definition submissions :: "client \<Rightarrow> effect list" where
  "submissions c = filter is_Submit (effects c)"

fun is_override_effect :: "effect \<Rightarrow> bool" where
  "is_override_effect (Submit _ _) = False"
| "is_override_effect (Warn _) = False"
| "is_override_effect (LogError _) = False"
| "is_override_effect _ = True"

definition override_effects :: "client \<Rightarrow> effect list" where
  "override_effects c = filter is_override_effect (effects c)"

text \<open>A concrete client and concrete surroundings, used to run the actions on examples.\<close>

definition sample_client :: client where
  "sample_client =
     \<lparr>playerEntity = Some 1, fastTxExecutor = True,
      MapConfig = Some \<lparr>width = Num 5, height = Num 5\<rparr>,
      Obstruction = [(2, True)],
      Position = [(1, (Num 1, Num 0)), (2, (Num 3, Num 3))],
      Player = [], Encounter = [], OwnedBy = [],
      entityToIndex = [(''0x01'', 1), (''0x02'', 2), (''0x09'', 3)],
      entities = [''0x00'', ''0x01'', ''0x02'', ''0x09''],
      PositionOverrides = [], PlayerOverrides = [], effects = []\<rparr>"

definition sample_env :: "tx settled \<Rightarrow> env" where
  "sample_env outcome =
     \<lparr>uuid1 = ''id-1'', uuid2 = ''id-2'', fastTxExecute = outcome,
      txReduced = [''0x11'', ''0xab''], reduced = (\<lambda>c. c),
      normalizeEntityID = (\<lambda>entityId. entityId)\<rparr>"


section \<open>Properties of the encounter contract\<close>

subsection \<open>Checked arithmetic\<close>

lemma word_parity_unat: "((w::256 word) mod 2 = 0) = even (unat w)"
  by (metis even_iff_mod_2_eq_zero even_of_nat of_nat_unat ucast_id)

lemma checked_increment: "(w::256 word) \<noteq> - 1 \<Longrightarrow> unat (w + 1) = unat w + 1"
proof -
  assume "w \<noteq> - 1"
  then have "1 + w \<noteq> 0"
    by (metis add.commute add_eq_0_iff2 minus_equation_iff)
  then show ?thesis
    using unatSuc [of w] by (simp add: add.commute)
qed

lemma small_not_max: "\<not> (2::256 word) < w \<Longrightarrow> w \<noteq> - 1"
  by auto

lemma checked_subtraction:
  "\<not> (h::32 word) < d \<Longrightarrow> int (unat (h - d)) = int (unat h) - int (unat d)"
  by (simp add: linorder_not_less uint_minus_simple_alt)

lemma sample_player: "addressToEntityKey (sample_context d) (msgSender (sample_context d)) = 7"
  by (simp add: sample_context_def)

lemma sample_record: "Encounter_get (sample_world n h d) 7 = (n, [9])"
  by (simp add: sample_world_def Encounter_get_def)

lemma sample_rand:
  "keccak256_encode (sample_context d) 7 9 n (block_difficulty (sample_context d)) = 16 + n + d"
  by (simp add: sample_context_def)


lemma empty_record: "Encounter_get empty_world k = (0, [])"
  by (simp add: empty_world_def Encounter_get_def)

lemma sample_health: "Health_get (sample_world n h d) 9 = h"
  by (simp add: sample_world_def Health_get_def)

lemma sample_strength: "Strength_get (sample_world n h d) 7 = d"
  by (simp add: sample_world_def Strength_get_def)

subsection \<open>Resolution of a throw\<close>

text \<open>
  C1: a player whose encounter record has \<open>actionCount \<ge> 1\<close> throws at the first monster
  of the record. When the derived value is even the monster's owner becomes the player and
  the player's encounter record is deleted (capture); when it is odd and
  \<open>actionCount > 2\<close> the encounter record and the monster record are both deleted
  (escape); otherwise the record stays and \<open>actionCount\<close> grows by exactly one (miss).
\<close>

theorem throwBall_resolution:
  assumes rec: "Encounter_get s player = (actionCount, monster # rest)"
    and player: "player = addressToEntityKey ctx (msgSender ctx)"
    and rand: "rand = keccak256_encode ctx player monster actionCount (block_difficulty ctx)"
    and engaged: "1 \<le> unat actionCount"
  shows "(even (unat rand) \<longrightarrow>
           (\<exists>s'. throwBall ctx s = Inr s' \<and> OwnedByTable s' monster = Some player
              \<and> EncounterTable s' player = None \<and> MonsterTable s' = MonsterTable s))
       \<and> (odd (unat rand) \<and> 2 < unat actionCount \<longrightarrow>
           (\<exists>s'. throwBall ctx s = Inr s' \<and> EncounterTable s' player = None
              \<and> MonsterTable s' monster = None \<and> OwnedByTable s' = OwnedByTable s))
       \<and> (odd (unat rand) \<and> unat actionCount \<le> 2 \<longrightarrow>
           (\<exists>s'. throwBall ctx s = Inr s'
              \<and> EncounterTable s' player = Some (actionCount + 1, monster # rest)
              \<and> unat (actionCount + 1) = unat actionCount + 1
              \<and> MonsterTable s' = MonsterTable s \<and> OwnedByTable s' = OwnedByTable s))"
proof -
  have nz: "actionCount \<noteq> 0"
    using engaged by auto
  have capture: "throwBall ctx s = Inr (Encounter_deleteRecord player (OwnedBy_set monster player s))"
    if "even (unat rand)"
    using that rec nz by (simp add: throwBall_def player [symmetric] rand [symmetric] word_parity_unat)
  have escape: "throwBall ctx s = Inr (Monster_deleteRecord monster (Encounter_deleteRecord player s))"
    if "odd (unat rand)" "2 < unat actionCount"
    using that rec nz
    by (simp add: throwBall_def player [symmetric] rand [symmetric] word_parity_unat word_less_nat_alt)
  have small: "actionCount \<noteq> - 1" if "unat actionCount \<le> 2"
    using that small_not_max [of actionCount] by (simp add: word_less_nat_alt)
  have miss: "throwBall ctx s = Inr (Encounter_setActionCount player (actionCount + 1) s)"
    if "odd (unat rand)" "unat actionCount \<le> 2"
    using that rec nz small
    by (simp add: throwBall_def player [symmetric] rand [symmetric] word_parity_unat word_less_nat_alt)
  show ?thesis
  proof (intro conjI impI)
    assume "even (unat rand)"
    then show "\<exists>s'. throwBall ctx s = Inr s' \<and> OwnedByTable s' monster = Some player
              \<and> EncounterTable s' player = None \<and> MonsterTable s' = MonsterTable s"
      by (simp add: capture Encounter_deleteRecord_def OwnedBy_set_def)
  next
    assume "odd (unat rand) \<and> 2 < unat actionCount"
    then show "\<exists>s'. throwBall ctx s = Inr s' \<and> EncounterTable s' player = None
              \<and> MonsterTable s' monster = None \<and> OwnedByTable s' = OwnedByTable s"
      by (simp add: escape Encounter_deleteRecord_def Monster_deleteRecord_def)
  next
    assume a: "odd (unat rand) \<and> unat actionCount \<le> 2"
    then show "\<exists>s'. throwBall ctx s = Inr s'
              \<and> EncounterTable s' player = Some (actionCount + 1, monster # rest)
              \<and> unat (actionCount + 1) = unat actionCount + 1
              \<and> MonsterTable s' = MonsterTable s \<and> OwnedByTable s' = OwnedByTable s"
      using rec small checked_increment [of actionCount]
      by (simp add: miss Encounter_setActionCount_def)
  qed
qed


theorem throwBall_resolution_witness:
  "Encounter_get (sample_world 1 5 10) 7 = (1, [9]) \<and> odd (unat (17 :: uint256)) \<and>
   (\<exists>s'. throwBall (sample_context 0) (sample_world 1 5 10) = Inr s'
      \<and> EncounterTable s' 7 = Some (2, [9])) \<and>
   Encounter_get (sample_world 3 5 10) 7 = (3, [9]) \<and> odd (unat (19 :: uint256)) \<and>
   (\<exists>s'. throwBall (sample_context 0) (sample_world 3 5 10) = Inr s'
      \<and> EncounterTable s' 7 = None \<and> MonsterTable s' 9 = None) \<and>
   even (unat (18 :: uint256)) \<and>
   (\<exists>s'. throwBall (sample_context 1) (sample_world 1 5 10) = Inr s'
      \<and> OwnedByTable s' 9 = Some 7 \<and> EncounterTable s' 7 = None)"
proof -
  have key: "7 = addressToEntityKey (sample_context d) (msgSender (sample_context d))" for d
    by (simp add: sample_player)
  have r17: "(17::uint256) =
      keccak256_encode (sample_context 0) 7 9 1 (block_difficulty (sample_context 0))"
    by (simp add: sample_rand)
  have r19: "(19::uint256) =
      keccak256_encode (sample_context 0) 7 9 3 (block_difficulty (sample_context 0))"
    by (simp add: sample_rand)
  have r18: "(18::uint256) =
      keccak256_encode (sample_context 1) 7 9 1 (block_difficulty (sample_context 1))"
    by (simp add: sample_rand)
  have one: "1 \<le> unat (1::uint256)" and three: "1 \<le> unat (3::uint256)"
    by simp_all
  have odd17: "odd (unat (17::uint256)) \<and> unat (1::uint256) \<le> 2"
    and odd19: "odd (unat (19::uint256)) \<and> 2 < unat (3::uint256)"
    and even18: "even (unat (18::uint256))"
    by simp_all
  have miss: "\<exists>s'. throwBall (sample_context 0) (sample_world 1 5 10) = Inr s'
      \<and> EncounterTable s' 7 = Some (2, [9])"
    using throwBall_resolution [OF sample_record key r17 one] odd17 by auto
  have escape: "\<exists>s'. throwBall (sample_context 0) (sample_world 3 5 10) = Inr s'
      \<and> EncounterTable s' 7 = None \<and> MonsterTable s' 9 = None"
    using throwBall_resolution [OF sample_record key r19 three] odd19 by blast
  have capture: "\<exists>s'. throwBall (sample_context 1) (sample_world 1 5 10) = Inr s'
      \<and> OwnedByTable s' 9 = Some 7 \<and> EncounterTable s' 7 = None"
    using throwBall_resolution [OF sample_record key r18 one] even18 by blast
  show ?thesis
    using miss escape capture odd17 odd19 even18 sample_record by blast
qed

subsection \<open>The guard of a throw\<close>

text \<open>
  C5: \<open>throwBall\<close> fails with the error "not in this encounter" exactly when the
  player's encounter record reads \<open>actionCount = 0\<close>, which is what an absent record
  reads; the failed call changes no state. With a monster in the record, the call succeeds
  exactly when \<open>actionCount \<noteq> 0\<close>.
\<close>

theorem throwBall_requires_encounter:
  assumes rec: "Encounter_get s (addressToEntityKey ctx (msgSender ctx)) = (actionCount, monsters)"
  shows "((throwBall ctx s = Inl (Revert ''not in this encounter'')) = (actionCount = 0))
       \<and> (actionCount = 0 \<longrightarrow> state_after s (throwBall ctx s) = s)
       \<and> (EncounterTable s (addressToEntityKey ctx (msgSender ctx)) = None \<longrightarrow> actionCount = 0)
       \<and> (monsters \<noteq> [] \<longrightarrow> (\<exists>s'. throwBall ctx s = Inr s') = (actionCount \<noteq> 0))"
proof (intro conjI)
  show "(throwBall ctx s = Inl (Revert ''not in this encounter'')) = (actionCount = 0)"
    using rec by (simp add: throwBall_def Let_def split: list.split)
  show "actionCount = 0 \<longrightarrow> state_after s (throwBall ctx s) = s"
    using rec by (simp add: throwBall_def state_after_def)
  show "EncounterTable s (addressToEntityKey ctx (msgSender ctx)) = None \<longrightarrow> actionCount = 0"
    using rec by (auto simp add: Encounter_get_def)
  show "monsters \<noteq> [] \<longrightarrow> (\<exists>s'. throwBall ctx s = Inr s') = (actionCount \<noteq> 0)"
    using rec small_not_max [of actionCount]
    by (auto simp add: throwBall_def Let_def split: list.split)
qed

theorem throwBall_requires_encounter_witness:
  "Encounter_get (sample_world 0 5 10) 7 = (0, [9])
   \<and> throwBall (sample_context 0) (sample_world 0 5 10) = Inl (Revert ''not in this encounter'')
   \<and> state_after (sample_world 0 5 10) (throwBall (sample_context 0) (sample_world 0 5 10))
       = sample_world 0 5 10
   \<and> EncounterTable empty_world 7 = None
   \<and> throwBall (sample_context 0) empty_world = Inl (Revert ''not in this encounter'')
   \<and> Encounter_get (sample_world 2 5 10) 7 = (2, [9])
   \<and> (\<exists>s'. throwBall (sample_context 0) (sample_world 2 5 10) = Inr s')"
proof -
  have k: "addressToEntityKey (sample_context 0) (msgSender (sample_context 0)) = 7"
    by (rule sample_player)
  have a: "Encounter_get (sample_world n 5 10)
      (addressToEntityKey (sample_context 0) (msgSender (sample_context 0))) = (n, [9])" for n
    by (simp add: k sample_record)
  have b: "Encounter_get empty_world
      (addressToEntityKey (sample_context 0) (msgSender (sample_context 0))) = (0, [])"
    by (rule empty_record)
  have two: "(2::uint256) \<noteq> 0" and ne: "[9::bytes32] \<noteq> []"
    by simp_all
  have "EncounterTable empty_world 7 = None"
    by (simp add: empty_world_def)
  then show ?thesis
    using throwBall_requires_encounter [OF a [of 0]] throwBall_requires_encounter [OF b]
      throwBall_requires_encounter [OF a [of 2]] two ne sample_record [of _ 5 10]
    by blast
qed

subsection \<open>Attack\<close>

text \<open>
  C3, as amended: \<open>attack\<close> on a record with a first monster subtracts the player's
  strength from the monster's health with no clamp at zero when the strength does not
  exceed the health; health is a \<open>uint32\<close> under checked arithmetic, so when the strength
  exceeds the health the call fails with the arithmetic panic 0x11 and the health stays as
  it was.
\<close>

theorem attack_checked_subtraction:
  assumes rec: "Encounter_get s player = (actionCount, monster # rest)"
    and player: "player = addressToEntityKey ctx (msgSender ctx)"
    and h: "health = Health_get s monster"
    and d: "strength = Strength_get s player"
  shows "(unat strength \<le> unat health \<longrightarrow>
           (\<exists>s'. attack ctx s = Inr s' \<and> Health_get s' monster = health - strength
              \<and> int (unat (Health_get s' monster)) = int (unat health) - int (unat strength)))
       \<and> (unat health < unat strength \<longrightarrow>
           attack ctx s = Inl (Panic 0x11) \<and> state_after s (attack ctx s) = s)"
proof (intro conjI impI)
  assume le: "unat strength \<le> unat health"
  then have nl: "\<not> health < strength"
    by (simp add: word_less_nat_alt)
  then have "attack ctx s = Inr (Health_set monster (health - strength) s)"
    using rec by (simp add: attack_def player [symmetric] h [symmetric] d [symmetric])
  then show "\<exists>s'. attack ctx s = Inr s' \<and> Health_get s' monster = health - strength
              \<and> int (unat (Health_get s' monster)) = int (unat health) - int (unat strength)"
    using checked_subtraction [OF nl] by (simp add: Health_set_def Health_get_def)
next
  assume "unat health < unat strength"
  then have "health < strength"
    by (simp add: word_less_nat_alt)
  then have p: "attack ctx s = Inl (Panic 0x11)"
    using rec by (simp add: attack_def player [symmetric] h [symmetric] d [symmetric])
  then show "attack ctx s = Inl (Panic 0x11)" .
  from p show "state_after s (attack ctx s) = s" by (simp add: state_after_def)
qed

theorem attack_checked_subtraction_witness:
  "Encounter_get (sample_world 1 10 3) 7 = (1, [9])
   \<and> (\<exists>s'. attack (sample_context 0) (sample_world 1 10 3) = Inr s' \<and> Health_get s' 9 = 7)
   \<and> attack (sample_context 0) (sample_world 1 5 10) = Inl (Panic 0x11)"
proof -
  have k: "7 = addressToEntityKey (sample_context 0) (msgSender (sample_context 0))"
    by (simp add: sample_player)
  have le: "unat (3::uint32) \<le> unat (10::uint32)" and less: "unat (5::uint32) < unat (10::uint32)"
    and sub: "(10::uint32) - 3 = 7"
    by simp_all
  show ?thesis
    using attack_checked_subtraction [OF sample_record [of 1 10 3] k
        sample_health [of 1 10 3, symmetric] sample_strength [of 1 10 3, symmetric]]
      attack_checked_subtraction [OF sample_record [of 1 5 10] k
        sample_health [of 1 5 10, symmetric] sample_strength [of 1 5 10, symmetric]]
      le less sub sample_record [of 1 10 3]
    by auto
qed

text \<open>
  C3 as stated fails: with health 5 and strength 10 the call does not complete, and no
  negative health is stored.
\<close>

theorem attack_underflow_counterexample:
  "Health_get (sample_world 1 5 10) 9 = 5 \<and> Strength_get (sample_world 1 5 10) 7 = 10
   \<and> attack (sample_context 0) (sample_world 1 5 10) = Inl (Panic 0x11)
   \<and> \<not> (\<exists>s'. attack (sample_context 0) (sample_world 1 5 10) = Inr s')"
proof -
  have "attack (sample_context 0) (sample_world 1 5 10) = Inl (Panic 0x11)"
    by (simp add: attack_def sample_player sample_record sample_health sample_strength)
  then show ?thesis
    by (simp add: sample_health sample_strength)
qed


text \<open>
  C9: \<open>attack\<close> validates nothing. For a player with no encounter record it reads an
  empty monster list and fails on \<open>monsters[0]\<close> with the out-of-bounds panic 0x32, where
  \<open>throwBall\<close> fails with its "not in this encounter" error; no call of \<open>attack\<close> ever
  fails with a \<open>require\<close> message.
\<close>

theorem attack_without_encounter:
  fixes s :: "'m world"
  assumes "EncounterTable s (addressToEntityKey ctx (msgSender ctx)) = None"
  shows "attack ctx s = Inl (Panic 0x32)
       \<and> state_after s (attack ctx s) = s
       \<and> throwBall ctx s = Inl (Revert ''not in this encounter'')
       \<and> (\<forall>(t :: 'm world) msg. attack ctx t \<noteq> Inl (Revert msg))"
proof -
  have "attack ctx t \<noteq> Inl (Revert msg)" for t :: "'m world" and msg
    by (simp add: attack_def Let_def split: prod.split list.split)
  then show ?thesis
    using assms by (simp add: attack_def throwBall_def Encounter_get_def state_after_def)
qed

theorem attack_without_encounter_witness:
  "EncounterTable empty_world 7 = None
   \<and> attack (sample_context 0) empty_world = Inl (Panic 0x32)
   \<and> throwBall (sample_context 0) empty_world = Inl (Revert ''not in this encounter'')"
proof -
  have e: "EncounterTable empty_world
      (addressToEntityKey (sample_context 0) (msgSender (sample_context 0))) = None"
    by (simp add: empty_world_def)
  show ?thesis
    using attack_without_encounter [OF e] e by (simp add: sample_player)
qed

subsection \<open>Flee\<close>

text \<open>
  C8: \<open>flee\<close> never fails and leaves the caller without an encounter record, whatever
  the state; a second \<open>flee\<close> succeeds too and changes nothing, and \<open>flee\<close> with no
  record is a successful call that changes nothing.
\<close>

theorem flee_always_ends_encounter:
  "(\<exists>s'. flee ctx s = Inr s'
      \<and> EncounterTable s' (addressToEntityKey ctx (msgSender ctx)) = None
      \<and> Encounter_get s' (addressToEntityKey ctx (msgSender ctx)) = (0, [])
      \<and> flee ctx s' = Inr s')
   \<and> (EncounterTable s (addressToEntityKey ctx (msgSender ctx)) = None \<longrightarrow> flee ctx s = Inr s)"
proof (intro conjI impI)
  show "\<exists>s'. flee ctx s = Inr s'
      \<and> EncounterTable s' (addressToEntityKey ctx (msgSender ctx)) = None
      \<and> Encounter_get s' (addressToEntityKey ctx (msgSender ctx)) = (0, [])
      \<and> flee ctx s' = Inr s'"
    by (simp add: flee_def Encounter_deleteRecord_def Encounter_get_def)
next
  assume "EncounterTable s (addressToEntityKey ctx (msgSender ctx)) = None"
  then have "(EncounterTable s)(addressToEntityKey ctx (msgSender ctx) := None) = EncounterTable s"
    by (simp add: fun_upd_idem)
  then show "flee ctx s = Inr s"
    by (simp add: flee_def Encounter_deleteRecord_def)
qed

theorem flee_always_ends_encounter_witness:
  "(\<exists>s'. flee (sample_context 0) (sample_world 1 5 10) = Inr s' \<and> EncounterTable s' 7 = None
      \<and> flee (sample_context 0) s' = Inr s')
   \<and> EncounterTable empty_world 7 = None
   \<and> flee (sample_context 0) empty_world = Inr empty_world"
proof -
  have "EncounterTable empty_world 7 = None"
    by (simp add: empty_world_def)
  then show ?thesis
    using flee_always_ends_encounter [of "sample_context 0" "sample_world 1 5 10"]
      flee_always_ends_encounter [of "sample_context 0" empty_world]
    unfolding sample_player by blast
qed

text \<open>
  C10: \<open>flee\<close> writes the caller's encounter record only: the monster, health,
  strength and ownership tables and every other player's encounter record are as before.
\<close>

theorem flee_frame:
  "\<exists>s'. flee ctx s = Inr s'
      \<and> MonsterTable s' = MonsterTable s \<and> HealthTable s' = HealthTable s
      \<and> StrengthTable s' = StrengthTable s \<and> OwnedByTable s' = OwnedByTable s
      \<and> entropyNonce s' = entropyNonce s
      \<and> (\<forall>q. q \<noteq> addressToEntityKey ctx (msgSender ctx) \<longrightarrow>
            EncounterTable s' q = EncounterTable s q)"
  by (simp add: flee_def Encounter_deleteRecord_def)

theorem flee_frame_witness:
  "\<exists>s'. flee (sample_context 0) two_player_world = Inr s'
      \<and> EncounterTable s' 7 = None
      \<and> (8::bytes32) \<noteq> 7 \<and> EncounterTable s' 8 = Some (2, [10])
      \<and> MonsterTable s' 9 = Some 1 \<and> HealthTable s' 9 = Some 5 \<and> OwnedByTable s' 11 = Some 8"
proof -
  obtain s' where f: "flee (sample_context 0) two_player_world = Inr s'"
    and m: "MonsterTable s' = MonsterTable two_player_world"
    and h: "HealthTable s' = HealthTable two_player_world"
    and ob: "OwnedByTable s' = OwnedByTable two_player_world"
    and e: "\<forall>q. q \<noteq> 7 \<longrightarrow> EncounterTable s' q = EncounterTable two_player_world q"
    using flee_frame [of "sample_context 0" two_player_world]
    by (auto simp add: sample_player)
  have "EncounterTable s' 7 = None"
    using f by (auto simp add: flee_def Encounter_deleteRecord_def sample_player)
  moreover have "(8::bytes32) \<noteq> 7" by simp
  moreover from this e have "EncounterTable s' 8 = Some (2, [10])"
    by (simp add: two_player_world_def)
  ultimately show ?thesis
    using f m h ob by (simp add: two_player_world_def)
qed

section \<open>Properties of the client's action layer\<close>

subsection \<open>Shape of the actions\<close>

lemma removeOverride_addOverride:
  "i \<notin> oid ` set ovs \<Longrightarrow> removeOverride i (addOverride i e v ovs) = ovs"
  by (induction ovs) (auto simp add: removeOverride_def addOverride_def)

lemma send_and_await_state:
  "fst (send_and_await env func args c) =
     c\<lparr>effects := effects (fst (send_and_await env func args c))\<rparr>"
  by (simp add: send_and_await_def worldSend_def Let_def split: settled.split)

lemma send_and_await_completion:
  "snd (send_and_await env func args c) = snd (send_and_await env func args' c')"
  if "fastTxExecutor c = fastTxExecutor c'"
  using that by (simp add: send_and_await_def worldSend_def Let_def split: settled.split)

lemma send_and_await_no_signer:
  "\<not> fastTxExecutor c \<Longrightarrow> send_and_await env func args c = (c, Threw (Error ''no signer''))"
  by (simp add: send_and_await_def worldSend_def)


lemma send_and_await_overrides:
  "PositionOverrides (fst (send_and_await env func args c)) = PositionOverrides c"
  "PlayerOverrides (fst (send_and_await env func args c)) = PlayerOverrides c"
  by (subst send_and_await_state, simp)+

lemma try_finally_settled:
  assumes "snd (try_finally body cleanup c) \<noteq> Suspended"
  shows "fst (try_finally body cleanup c) = cleanup (fst (body c))"
    and "snd (try_finally body cleanup c) = snd (body c)"
  using assms by (auto simp add: try_finally_def split: prod.splits completion.splits)

lemma spawn_unfold:
  assumes "playerEntity c = Some player" and "wrapPosition c x y = Inr (wx, wy)"
  shows "spawn env x y c =
    (if player = 0 then (c, Threw (Error ''no player''))
     else if getOverriddenValue (PlayerOverrides c) (Player c) player = Some True
     then (c, Threw (Error ''already spawned''))
     else if isObstructed c wx wy
     then (c\<lparr>effects := effects c @ [Warn ''cannot spawn on obstructed space'']\<rparr>, Returned)
     else try_finally (send_and_await env ''spawn'' [wx, wy])
            (\<lambda>c'. Player_removeOverride (uuid2 env) (Position_removeOverride (uuid1 env) c'))
            (Player_addOverride (uuid2 env) player True
              (Position_addOverride (uuid1 env) player (wx, wy) c)))"
  using assms by (simp add: spawn_def Let_def)

lemma moveTo_unfold:
  assumes "playerEntity c = Some player" and "wrapPosition c x y = Inr (wx, wy)"
  shows "moveTo env x y c =
    (if player = 0 then (c, Threw (Error ''no player''))
     else if isObstructed c wx wy
     then (c\<lparr>effects := effects c @ [Warn ''cannot move to obstructed space'']\<rparr>, Returned)
     else if getComponentValue (Encounter c) player \<noteq> None
     then (c\<lparr>effects := effects c @ [Warn ''cannot move while in encounter'']\<rparr>, Returned)
     else try_finally (send_and_await env ''move'' [x, y])
            (Position_removeOverride (uuid1 env))
            (Position_addOverride (uuid1 env) player (wx, wy) c))"
  using assms by (simp add: moveTo_def Let_def)

lemma moveTo_overrides:
  assumes fresh: "uuid1 env \<notin> oid ` set (PositionOverrides c)"
    and settled: "snd (moveTo env x y c) \<noteq> Suspended"
  shows "live_overrides (fst (moveTo env x y c)) = live_overrides c"
proof (cases "playerEntity c")
  case None
  then show ?thesis by (simp add: moveTo_def)
next
  case (Some player)
  show ?thesis
  proof (cases "wrapPosition c x y")
    case (Inl e)
    with Some show ?thesis by (simp add: moveTo_def)
  next
    case (Inr w)
    obtain wx wy where w: "wrapPosition c x y = Inr (wx, wy)"
      using Inr by (cases w) simp
    let ?c1 = "Position_addOverride (uuid1 env) player (wx, wy) c"
    let ?go = "try_finally (send_and_await env ''move'' [x, y])
        (Position_removeOverride (uuid1 env)) ?c1"
    show ?thesis
    proof (cases "moveTo env x y c = ?go")
      case False
      then show ?thesis
        using moveTo_unfold [OF Some w, of env]
        by (auto simp add: live_overrides_def split: if_splits)
    next
      case True
      with settled have "snd ?go \<noteq> Suspended" by simp
      then have "fst ?go = Position_removeOverride (uuid1 env)
          (fst (send_and_await env ''move'' [x, y] ?c1))"
        by (rule try_finally_settled)
      then show ?thesis
        using fresh True
        by (simp add: live_overrides_def Position_removeOverride_def send_and_await_overrides
            Position_addOverride_def removeOverride_addOverride)
    qed
  qed
qed

lemma spawn_overrides:
  assumes fresh1: "uuid1 env \<notin> oid ` set (PositionOverrides c)"
    and fresh2: "uuid2 env \<notin> oid ` set (PlayerOverrides c)"
    and settled: "snd (spawn env x y c) \<noteq> Suspended"
  shows "live_overrides (fst (spawn env x y c)) = live_overrides c"
proof (cases "playerEntity c")
  case None
  then show ?thesis by (simp add: spawn_def)
next
  case (Some player)
  show ?thesis
  proof (cases "wrapPosition c x y")
    case (Inl e)
    with Some show ?thesis by (simp add: spawn_def Let_def)
  next
    case (Inr w)
    obtain wx wy where w: "wrapPosition c x y = Inr (wx, wy)"
      using Inr by (cases w) simp
    let ?c2 = "Player_addOverride (uuid2 env) player True
        (Position_addOverride (uuid1 env) player (wx, wy) c)"
    let ?cleanup = "\<lambda>c'. Player_removeOverride (uuid2 env) (Position_removeOverride (uuid1 env) c')"
    let ?go = "try_finally (send_and_await env ''spawn'' [wx, wy]) ?cleanup ?c2"
    show ?thesis
    proof (cases "spawn env x y c = ?go")
      case False
      then show ?thesis
        using spawn_unfold [OF Some w, of env]
        by (auto simp add: live_overrides_def split: if_splits)
    next
      case True
      with settled have "snd ?go \<noteq> Suspended" by simp
      then have "fst ?go = ?cleanup (fst (send_and_await env ''spawn'' [wx, wy] ?c2))"
        by (rule try_finally_settled)
      then show ?thesis
        using fresh1 fresh2 True
        by (simp add: live_overrides_def Position_removeOverride_def Player_removeOverride_def
            send_and_await_overrides Position_addOverride_def Player_addOverride_def
            removeOverride_addOverride)
    qed
  qed
qed

lemmas client_run =
  moveTo_def spawn_def wrapPosition_def isObstructed_def runQuery_def getOverriddenValue_def
  getComponentValue_def try_finally_def send_and_await_def worldSend_def awaitStreamValue_def
  Position_addOverride_def Position_removeOverride_def Player_addOverride_def
  Player_removeOverride_def addOverride_def removeOverride_def sample_client_def sample_env_def
  live_overrides_def replica_store_def submissions_def override_effects_def Let_def

lemma run_moveTo_obstructed:
  "moveTo env (Num 3) (Num 3) sample_client =
     (sample_client\<lparr>effects := [Warn ''cannot move to obstructed space'']\<rparr>, Returned)"
  by (simp add: client_run)

lemma run_moveTo_no_signer:
  "moveTo (sample_env outcome) (Num 1) (Num 1) (sample_client\<lparr>fastTxExecutor := False\<rparr>) =
     (sample_client\<lparr>fastTxExecutor := False, effects :=
        [AddPositionOverride ''id-1'' 1 (Num 1, Num 1), RemovePositionOverride ''id-1'']\<rparr>,
      Threw (Error ''no signer''))"
  by (simp add: client_run)

lemma run_moveTo_W:
  "moveTo (sample_env (Fulfilled \<lparr>hash = ''0xab''\<rparr>)) (Num 5) (Num 0) sample_client =
     (sample_client\<lparr>effects :=
        [AddPositionOverride ''id-1'' 1 (Num 0, Num 0), Submit ''move'' [Num 5, Num 0],
         RemovePositionOverride ''id-1'']\<rparr>,
      Returned)"
  by (simp add: client_run)

lemma run_moveTo_0:
  "moveTo (sample_env (Fulfilled \<lparr>hash = ''0xab''\<rparr>)) (Num 0) (Num 0) sample_client =
     (sample_client\<lparr>effects :=
        [AddPositionOverride ''id-1'' 1 (Num 0, Num 0), Submit ''move'' [Num 0, Num 0],
         RemovePositionOverride ''id-1'']\<rparr>,
      Returned)"
  by (simp add: client_run)

lemma isObstructed_occupied:
  assumes "e \<in> fst ` set (Obstruction c)"
    and "getOverriddenValue (PositionOverrides c) (Position c) e = Some (Num a, Num b)"
  shows "isObstructed c (Num a) (Num b)"
proof -
  have "e \<in> set (runQuery c (Num a) (Num b))"
    using assms by (simp add: runQuery_def)
  then show ?thesis
    by (auto simp add: isObstructed_def)
qed

lemma try_finally_no_signer:
  "\<not> fastTxExecutor c \<Longrightarrow>
   try_finally (send_and_await env func args) cleanup c = (cleanup c, Threw (Error ''no signer''))"
  by (simp add: try_finally_def send_and_await_no_signer)

lemma fastTxExecutor_addOverride:
  "fastTxExecutor (Position_addOverride i e v c) = fastTxExecutor c"
  "fastTxExecutor (Player_addOverride j e b c) = fastTxExecutor c"
  by (simp_all add: Position_addOverride_def Player_addOverride_def)

lemma moveTo_no_player:
  "playerEntity c = None \<or> playerEntity c = Some 0 \<Longrightarrow>
   moveTo env x y c = (c, Threw (Error ''no player''))"
  by (auto simp add: moveTo_def)

lemma spawn_no_player:
  "playerEntity c = None \<or> playerEntity c = Some 0 \<Longrightarrow>
   spawn env x y c = (c, Threw (Error ''no player''))"
  by (auto simp add: spawn_def)

lemma spawn_already_spawned:
  "playerEntity c = Some player \<Longrightarrow> player \<noteq> 0 \<Longrightarrow>
   getOverriddenValue (PlayerOverrides c) (Player c) player = Some True \<Longrightarrow>
   spawn env x y c = (c, Threw (Error ''already spawned''))"
  by (simp add: spawn_def)

lemma moveTo_no_signer:
  assumes "playerEntity c = Some player" and "player \<noteq> 0"
    and "wrapPosition c x y = Inr (wx, wy)" and "\<not> isObstructed c wx wy"
    and "getComponentValue (Encounter c) player = None" and "\<not> fastTxExecutor c"
  shows "moveTo env x y c =
     (c\<lparr>PositionOverrides :=
          removeOverride (uuid1 env) (addOverride (uuid1 env) player (wx, wy) (PositionOverrides c)),
        effects := effects c @
          [AddPositionOverride (uuid1 env) player (wx, wy), RemovePositionOverride (uuid1 env)]\<rparr>,
      Threw (Error ''no signer''))"
  using assms
  by (simp add: moveTo_unfold [OF assms(1) assms(3)] try_finally_no_signer
      fastTxExecutor_addOverride Position_addOverride_def Position_removeOverride_def)

lemma spawn_no_signer:
  assumes "playerEntity c = Some player" and "player \<noteq> 0"
    and "getOverriddenValue (PlayerOverrides c) (Player c) player \<noteq> Some True"
    and "wrapPosition c x y = Inr (wx, wy)" and "\<not> isObstructed c wx wy"
    and "\<not> fastTxExecutor c"
  shows "spawn env x y c =
     (c\<lparr>PositionOverrides :=
          removeOverride (uuid1 env) (addOverride (uuid1 env) player (wx, wy) (PositionOverrides c)),
        PlayerOverrides :=
          removeOverride (uuid2 env) (addOverride (uuid2 env) player True (PlayerOverrides c)),
        effects := effects c @
          [AddPositionOverride (uuid1 env) player (wx, wy), AddPlayerOverride (uuid2 env) player True,
           RemovePositionOverride (uuid1 env), RemovePlayerOverride (uuid2 env)]\<rparr>,
      Threw (Error ''no signer''))"
  using assms
  by (simp add: spawn_unfold [OF assms(1) assms(4)] try_finally_no_signer
      fastTxExecutor_addOverride Position_addOverride_def Position_removeOverride_def
      Player_addOverride_def Player_removeOverride_def)

lemma wrap_width: "W \<noteq> 0 \<Longrightarrow> js_rem (js_add (Num W) (Num W)) (Num W) = Num 0"
proof -
  have "\<bar>W + W\<bar> = 2 * \<bar>W\<bar>" by simp
  then have "\<bar>W + W\<bar> mod \<bar>W\<bar> = 0" by simp
  then show "W \<noteq> 0 \<Longrightarrow> js_rem (js_add (Num W) (Num W)) (Num W) = Num 0" by simp
qed

lemma wrap_zero: "H \<noteq> 0 \<Longrightarrow> js_rem (js_add (Num 0) (Num H)) (Num H) = Num 0"
  by simp

lemma attempt_shape:
  "try_finally (send_and_await env func args) (Position_removeOverride i) c =
     (let sent = (if fastTxExecutor c
                  then Submit func args #
                    (case fastTxExecute env of Rejected e \<Rightarrow> [LogError e] | _ \<Rightarrow> [])
                  else []);
          r = snd (send_and_await env func [] c)
      in if r = Suspended then (c\<lparr>effects := effects c @ sent\<rparr>, Suspended)
         else (c\<lparr>PositionOverrides := removeOverride i (PositionOverrides c),
                  effects := effects c @ sent @ [RemovePositionOverride i]\<rparr>, r))"
  by (simp add: try_finally_def send_and_await_def worldSend_def Position_removeOverride_def
      Let_def split: settled.split)

lemma awaitStreamValue_never_rejects: "awaitStreamValue env predicate \<noteq> Rejected e"
  by (simp add: awaitStreamValue_def split: list.split)

lemma awaitStreamValue_emitted:
  "h \<in> set (txReduced env) \<Longrightarrow> \<exists>v. awaitStreamValue env (\<lambda>txHash. txHash = h) = Fulfilled v"
proof -
  assume "h \<in> set (txReduced env)"
  then have "filter (\<lambda>txHash. txHash = h) (txReduced env) \<noteq> []"
    by (simp add: filter_empty_conv)
  then show ?thesis
    by (cases "filter (\<lambda>txHash. txHash = h) (txReduced env)") (simp_all add: awaitStreamValue_def)
qed

lemma send_and_await_confirmed:
  assumes "fastTxExecutor c" and "fastTxExecute env = Fulfilled t"
    and "hash t \<in> set (txReduced env)"
  shows "send_and_await env func args c = (c\<lparr>effects := effects c @ [Submit func args]\<rparr>, Returned)"
  using assms awaitStreamValue_emitted [OF assms(3)]
  by (auto simp add: send_and_await_def worldSend_def Let_def)

lemma send_and_await_rejected:
  assumes "fastTxExecutor c" and "fastTxExecute env = Rejected e"
  shows "send_and_await env func args c =
    (c\<lparr>effects := effects c @ [Submit func args, LogError e]\<rparr>, Threw e)"
  using assms by (simp add: send_and_await_def worldSend_def Let_def)

lemma send_and_await_settles:
  assumes "(\<exists>t. fastTxExecute env = Fulfilled t \<and> hash t \<in> set (txReduced env))
    \<or> (\<exists>e. fastTxExecute env = Rejected e) \<or> \<not> fastTxExecutor c"
  shows "snd (send_and_await env func args c) \<noteq> Suspended"
proof (cases "fastTxExecutor c")
  case False
  then show ?thesis by (simp add: send_and_await_no_signer)
next
  case True
  with assms show ?thesis
    by (auto simp add: send_and_await_confirmed send_and_await_rejected)
qed

lemma try_finally_completion: "snd (try_finally body cleanup c) = snd (body c)"
  by (simp add: try_finally_def split: prod.split completion.split)

lemma moveTo_settles:
  assumes "(\<exists>t. fastTxExecute env = Fulfilled t \<and> hash t \<in> set (txReduced env))
    \<or> (\<exists>e. fastTxExecute env = Rejected e) \<or> \<not> fastTxExecutor c"
  shows "snd (moveTo env x y c) \<noteq> Suspended"
proof (cases "playerEntity c")
  case None
  then show ?thesis by (simp add: moveTo_def)
next
  case (Some player)
  show ?thesis
  proof (cases "wrapPosition c x y")
    case (Inl e)
    with Some show ?thesis by (simp add: moveTo_def)
  next
    case (Inr w)
    obtain wx wy where w: "wrapPosition c x y = Inr (wx, wy)"
      using Inr by (cases w) simp
    have "snd (send_and_await env ''move'' [x, y]
        (Position_addOverride (uuid1 env) player (wx, wy) c)) \<noteq> Suspended"
      using assms by (intro send_and_await_settles) (simp add: fastTxExecutor_addOverride)
    then show ?thesis
      by (simp add: moveTo_unfold [OF Some w] try_finally_completion)
  qed
qed

lemma spawn_settles:
  assumes "(\<exists>t. fastTxExecute env = Fulfilled t \<and> hash t \<in> set (txReduced env))
    \<or> (\<exists>e. fastTxExecute env = Rejected e) \<or> \<not> fastTxExecutor c"
  shows "snd (spawn env x y c) \<noteq> Suspended"
proof (cases "playerEntity c")
  case None
  then show ?thesis by (simp add: spawn_def)
next
  case (Some player)
  show ?thesis
  proof (cases "wrapPosition c x y")
    case (Inl e)
    with Some show ?thesis by (simp add: spawn_def Let_def)
  next
    case (Inr w)
    obtain wx wy where w: "wrapPosition c x y = Inr (wx, wy)"
      using Inr by (cases w) simp
    have "snd (send_and_await env ''spawn'' [wx, wy]
        (Player_addOverride (uuid2 env) player True
          (Position_addOverride (uuid1 env) player (wx, wy) c))) \<noteq> Suspended"
      using assms by (intro send_and_await_settles) (simp add: fastTxExecutor_addOverride)
    then show ?thesis
      by (simp add: spawn_unfold [OF Some w] try_finally_completion)
  qed
qed

lemma moveTo_confirmed:
  assumes "playerEntity c = Some player" and "player \<noteq> 0"
    and "wrapPosition c x y = Inr (wx, wy)" and "\<not> isObstructed c wx wy"
    and "getComponentValue (Encounter c) player = None" and "fastTxExecutor c"
    and "uuid1 env \<notin> oid ` set (PositionOverrides c)"
    and "fastTxExecute env = Fulfilled t" and "hash t \<in> set (txReduced env)"
  shows "moveTo env x y c =
     (c\<lparr>effects := effects c @
          [AddPositionOverride (uuid1 env) player (wx, wy), Submit ''move'' [x, y],
           RemovePositionOverride (uuid1 env)]\<rparr>,
      Returned)"
  using assms
  by (simp add: moveTo_unfold [OF assms(1) assms(3)] try_finally_def
      send_and_await_confirmed [OF _ assms(8) assms(9)] fastTxExecutor_addOverride
      Position_addOverride_def Position_removeOverride_def
      removeOverride_addOverride)

lemma moveTo_rejected:
  assumes "playerEntity c = Some player" and "player \<noteq> 0"
    and "wrapPosition c x y = Inr (wx, wy)" and "\<not> isObstructed c wx wy"
    and "getComponentValue (Encounter c) player = None" and "fastTxExecutor c"
    and "uuid1 env \<notin> oid ` set (PositionOverrides c)"
    and "fastTxExecute env = Rejected e"
  shows "moveTo env x y c =
     (c\<lparr>effects := effects c @
          [AddPositionOverride (uuid1 env) player (wx, wy), Submit ''move'' [x, y],
           LogError e, RemovePositionOverride (uuid1 env)]\<rparr>,
      Threw e)"
  using assms
  by (simp add: moveTo_unfold [OF assms(1) assms(3)] try_finally_def
      send_and_await_rejected [OF _ assms(8)] fastTxExecutor_addOverride
      Position_addOverride_def Position_removeOverride_def
      removeOverride_addOverride)

lemma spawn_confirmed:
  assumes "playerEntity c = Some player" and "player \<noteq> 0"
    and "getOverriddenValue (PlayerOverrides c) (Player c) player \<noteq> Some True"
    and "wrapPosition c x y = Inr (wx, wy)" and "\<not> isObstructed c wx wy"
    and "fastTxExecutor c"
    and "uuid1 env \<notin> oid ` set (PositionOverrides c)"
    and "uuid2 env \<notin> oid ` set (PlayerOverrides c)"
    and "fastTxExecute env = Fulfilled t" and "hash t \<in> set (txReduced env)"
  shows "spawn env x y c =
     (c\<lparr>effects := effects c @
          [AddPositionOverride (uuid1 env) player (wx, wy),
           AddPlayerOverride (uuid2 env) player True, Submit ''spawn'' [wx, wy],
           RemovePositionOverride (uuid1 env), RemovePlayerOverride (uuid2 env)]\<rparr>,
      Returned)"
  using assms
  by (simp add: spawn_unfold [OF assms(1) assms(4)] try_finally_def
      send_and_await_confirmed [OF _ assms(9) assms(10)] fastTxExecutor_addOverride
      Position_addOverride_def Position_removeOverride_def
      Player_addOverride_def Player_removeOverride_def
      removeOverride_addOverride)

lemma spawn_rejected:
  assumes "playerEntity c = Some player" and "player \<noteq> 0"
    and "getOverriddenValue (PlayerOverrides c) (Player c) player \<noteq> Some True"
    and "wrapPosition c x y = Inr (wx, wy)" and "\<not> isObstructed c wx wy"
    and "fastTxExecutor c"
    and "uuid1 env \<notin> oid ` set (PositionOverrides c)"
    and "uuid2 env \<notin> oid ` set (PlayerOverrides c)"
    and "fastTxExecute env = Rejected e"
  shows "spawn env x y c =
     (c\<lparr>effects := effects c @
          [AddPositionOverride (uuid1 env) player (wx, wy),
           AddPlayerOverride (uuid2 env) player True, Submit ''spawn'' [wx, wy],
           LogError e, RemovePositionOverride (uuid1 env), RemovePlayerOverride (uuid2 env)]\<rparr>,
      Threw e)"
  using assms
  by (simp add: spawn_unfold [OF assms(1) assms(4)] try_finally_def
      send_and_await_rejected [OF _ assms(9)] fastTxExecutor_addOverride
      Position_addOverride_def Position_removeOverride_def
      Player_addOverride_def Player_removeOverride_def
      removeOverride_addOverride)


lemma moveBy_no_player:
  "playerEntity c = None \<or> playerEntity c = Some 0 \<Longrightarrow>
   moveBy env dx dy c = (c, Threw (Error ''no player''))"
  by (auto simp add: moveBy_def)

lemma moveBy_moveTo:
  "playerEntity c = Some player \<Longrightarrow> player \<noteq> 0 \<Longrightarrow>
   getOverriddenValue (PositionOverrides c) (Position c) player = Some p \<Longrightarrow>
   moveBy env dx dy c = moveTo env (js_add (fst p) dx) (js_add (snd p) dy) c"
  by (simp add: moveBy_def)

lemma throwBall_client_no_player:
  "playerEntity c = None \<or> playerEntity c = Some 0 \<Longrightarrow>
   throwBall_client env c = (c, Rejected (Error ''no player''))"
  by (auto simp add: throwBall_client_def)

lemma throwBall_client_no_encounter:
  "playerEntity c = Some player \<Longrightarrow> player \<noteq> 0 \<Longrightarrow>
   getComponentValue (Encounter c) player = None \<Longrightarrow>
   throwBall_client env c = (c, Rejected (Error ''no encounter''))"
  by (simp add: throwBall_client_def)

lemma throwBall_client_no_signer:
  "playerEntity c = Some player \<Longrightarrow> player \<noteq> 0 \<Longrightarrow>
   getComponentValue (Encounter c) player \<noteq> None \<Longrightarrow> \<not> fastTxExecutor c \<Longrightarrow>
   throwBall_client env c = (c, Rejected (Error ''no signer''))"
  by (auto simp add: throwBall_client_def send_and_await_no_signer)

subsection \<open>Override hygiene\<close>

text \<open>
  C2: for \<open>moveTo\<close> and \<open>spawn\<close> and every outcome of the call, the live overrides
  after the call are those before it. When the transaction is confirmed (the executor
  answers with a transaction whose hash the stream \<open>txReduced$\<close> emits), when the ledger
  rejects it (the executor's promise rejects), and when sending throws for want of a
  signer, the call ends; a call that has created its overrides then returns after
  confirmation, or throws the ledger's error after rejection, with each override it
  created removed again, as the sequence of its effects shows. More generally, whenever
  the call ends the live overrides are as before. The identifiers come from \<open>uuid()\<close>
  and are taken to be fresh, as override ids are unique.
\<close>

theorem override_hygiene:
  assumes fresh1: "uuid1 env \<notin> oid ` set (PositionOverrides c)"
    and fresh2: "uuid2 env \<notin> oid ` set (PlayerOverrides c)"
  shows "(snd (moveTo env x y c) \<noteq> Suspended \<longrightarrow>
            live_overrides (fst (moveTo env x y c)) = live_overrides c)
       \<and> (snd (spawn env x y c) \<noteq> Suspended \<longrightarrow>
            live_overrides (fst (spawn env x y c)) = live_overrides c)
       \<and> (fastTxExecute env = Fulfilled t \<and> hash t \<in> set (txReduced env)
            \<or> fastTxExecute env = Rejected e \<or> \<not> fastTxExecutor c \<longrightarrow>
            snd (moveTo env x y c) \<noteq> Suspended
            \<and> live_overrides (fst (moveTo env x y c)) = live_overrides c
            \<and> snd (spawn env x y c) \<noteq> Suspended
            \<and> live_overrides (fst (spawn env x y c)) = live_overrides c)
       \<and> (playerEntity c = Some player \<and> player \<noteq> 0 \<and> wrapPosition c x y = Inr (wx, wy)
            \<and> \<not> isObstructed c wx wy \<and> fastTxExecutor c \<longrightarrow>
          (getComponentValue (Encounter c) player = None \<longrightarrow>
             (fastTxExecute env = Fulfilled t \<and> hash t \<in> set (txReduced env) \<longrightarrow>
                moveTo env x y c =
                  (c\<lparr>effects := effects c @
                       [AddPositionOverride (uuid1 env) player (wx, wy), Submit ''move'' [x, y],
                        RemovePositionOverride (uuid1 env)]\<rparr>,
                   Returned))
             \<and> (fastTxExecute env = Rejected e \<longrightarrow>
                moveTo env x y c =
                  (c\<lparr>effects := effects c @
                       [AddPositionOverride (uuid1 env) player (wx, wy), Submit ''move'' [x, y],
                        LogError e, RemovePositionOverride (uuid1 env)]\<rparr>,
                   Threw e)))
          \<and> (getOverriddenValue (PlayerOverrides c) (Player c) player \<noteq> Some True \<longrightarrow>
             (fastTxExecute env = Fulfilled t \<and> hash t \<in> set (txReduced env) \<longrightarrow>
                spawn env x y c =
                  (c\<lparr>effects := effects c @
                       [AddPositionOverride (uuid1 env) player (wx, wy),
                        AddPlayerOverride (uuid2 env) player True, Submit ''spawn'' [wx, wy],
                        RemovePositionOverride (uuid1 env), RemovePlayerOverride (uuid2 env)]\<rparr>,
                   Returned))
             \<and> (fastTxExecute env = Rejected e \<longrightarrow>
                spawn env x y c =
                  (c\<lparr>effects := effects c @
                       [AddPositionOverride (uuid1 env) player (wx, wy),
                        AddPlayerOverride (uuid2 env) player True, Submit ''spawn'' [wx, wy],
                        LogError e, RemovePositionOverride (uuid1 env),
                        RemovePlayerOverride (uuid2 env)]\<rparr>,
                   Threw e))))"
proof -
  have settles: "snd (moveTo env x y c) \<noteq> Suspended \<and> snd (spawn env x y c) \<noteq> Suspended"
    if "fastTxExecute env = Fulfilled t \<and> hash t \<in> set (txReduced env)
          \<or> fastTxExecute env = Rejected e \<or> \<not> fastTxExecutor c"
  proof -
    from that have "(\<exists>t. fastTxExecute env = Fulfilled t \<and> hash t \<in> set (txReduced env))
        \<or> (\<exists>e. fastTxExecute env = Rejected e) \<or> \<not> fastTxExecutor c"
      by blast
    then show ?thesis
      by (simp add: moveTo_settles spawn_settles)
  qed
  show ?thesis
    using fresh1 fresh2 settles
    by (simp add: moveTo_overrides spawn_overrides moveTo_confirmed moveTo_rejected
        spawn_confirmed spawn_rejected)
qed


theorem override_hygiene_witness:
  "uuid1 (sample_env (Fulfilled \<lparr>hash = ''0xab''\<rparr>)) \<notin> oid ` set (PositionOverrides sample_client)
   \<and> hash \<lparr>hash = ''0xab''\<rparr> \<in> set (txReduced (sample_env (Fulfilled \<lparr>hash = ''0xab''\<rparr>)))
   \<and> moveTo (sample_env (Fulfilled \<lparr>hash = ''0xab''\<rparr>)) (Num 1) (Num 1) sample_client =
        (sample_client\<lparr>effects := effects sample_client @
           [AddPositionOverride ''id-1'' 1 (Num 1, Num 1), Submit ''move'' [Num 1, Num 1],
            RemovePositionOverride ''id-1'']\<rparr>,
         Returned)
   \<and> live_overrides (fst (moveTo (sample_env (Fulfilled \<lparr>hash = ''0xab''\<rparr>)) (Num 1) (Num 1)
        sample_client)) = live_overrides sample_client
   \<and> moveTo (sample_env (Rejected (Error ''reverted''))) (Num 1) (Num 1) sample_client =
        (sample_client\<lparr>effects := effects sample_client @
           [AddPositionOverride ''id-1'' 1 (Num 1, Num 1), Submit ''move'' [Num 1, Num 1],
            LogError (Error ''reverted''), RemovePositionOverride ''id-1'']\<rparr>,
         Threw (Error ''reverted''))
   \<and> spawn (sample_env (Fulfilled \<lparr>hash = ''0xab''\<rparr>)) (Num 6) (Num 1) sample_client =
        (sample_client\<lparr>effects := effects sample_client @
           [AddPositionOverride ''id-1'' 1 (Num 1, Num 1), AddPlayerOverride ''id-2'' 1 True,
            Submit ''spawn'' [Num 1, Num 1], RemovePositionOverride ''id-1'',
            RemovePlayerOverride ''id-2'']\<rparr>,
         Returned)
   \<and> spawn (sample_env (Rejected (Error ''reverted''))) (Num 6) (Num 1) sample_client =
        (sample_client\<lparr>effects := effects sample_client @
           [AddPositionOverride ''id-1'' 1 (Num 1, Num 1), AddPlayerOverride ''id-2'' 1 True,
            Submit ''spawn'' [Num 1, Num 1], LogError (Error ''reverted''),
            RemovePositionOverride ''id-1'', RemovePlayerOverride ''id-2'']\<rparr>,
         Threw (Error ''reverted''))
   \<and> live_overrides (fst (spawn (sample_env (Rejected (Error ''reverted''))) (Num 6) (Num 1)
        sample_client)) = live_overrides sample_client
   \<and> \<not> fastTxExecutor (sample_client\<lparr>fastTxExecutor := False\<rparr>)
   \<and> snd (moveTo (sample_env Pending) (Num 1) (Num 1) (sample_client\<lparr>fastTxExecutor := False\<rparr>))
        \<noteq> Suspended
   \<and> live_overrides (fst (moveTo (sample_env Pending) (Num 1) (Num 1)
        (sample_client\<lparr>fastTxExecutor := False\<rparr>)))
        = live_overrides (sample_client\<lparr>fastTxExecutor := False\<rparr>)"
proof -
  let ?ok = "sample_env (Fulfilled \<lparr>hash = ''0xab''\<rparr>)"
  let ?no = "sample_env (Rejected (Error ''reverted''))"
  let ?unsigned = "sample_client\<lparr>fastTxExecutor := False\<rparr>"
  have ids: "uuid1 (sample_env outcome) = ''id-1''" "uuid2 (sample_env outcome) = ''id-2''" for outcome
    by (simp_all add: sample_env_def)
  have fresh: "uuid1 (sample_env outcome) \<notin> oid ` set (PositionOverrides sample_client)"
    "uuid2 (sample_env outcome) \<notin> oid ` set (PlayerOverrides sample_client)"
    "uuid1 (sample_env outcome) \<notin> oid ` set (PositionOverrides ?unsigned)"
    "uuid2 (sample_env outcome) \<notin> oid ` set (PlayerOverrides ?unsigned)" for outcome
    by (simp_all add: sample_client_def)
  have ok: "fastTxExecute ?ok = Fulfilled \<lparr>hash = ''0xab''\<rparr>"
    "hash \<lparr>hash = ''0xab''\<rparr> \<in> set (txReduced ?ok)"
    and no: "fastTxExecute ?no = Rejected (Error ''reverted'')"
    by (simp_all add: sample_env_def)
  have player: "playerEntity sample_client = Some 1" and one: "(1::nat) \<noteq> 0"
    and signer: "fastTxExecutor sample_client" and unsigned: "\<not> fastTxExecutor ?unsigned"
    and idle: "getComponentValue (Encounter sample_client) 1 = None"
    and new: "getOverriddenValue (PlayerOverrides sample_client) (Player sample_client) 1 \<noteq> Some True"
    by (simp_all add: client_run)
  have w1: "wrapPosition sample_client (Num 1) (Num 1) = Inr (Num 1, Num 1)"
    and w6: "wrapPosition sample_client (Num 6) (Num 1) = Inr (Num 1, Num 1)"
    and free: "\<not> isObstructed sample_client (Num 1) (Num 1)"
    by (simp_all add: client_run)
  have m_ok: "moveTo ?ok (Num 1) (Num 1) sample_client =
        (sample_client\<lparr>effects := effects sample_client @
           [AddPositionOverride (uuid1 ?ok) 1 (Num 1, Num 1), Submit ''move'' [Num 1, Num 1],
            RemovePositionOverride (uuid1 ?ok)]\<rparr>,
         Returned)"
    and m_ok_live: "live_overrides (fst (moveTo ?ok (Num 1) (Num 1) sample_client))
        = live_overrides sample_client"
    using override_hygiene [where env = ?ok and c = sample_client and x = "Num 1" and y = "Num 1"
        and player = 1 and wx = "Num 1" and wy = "Num 1" and t = "\<lparr>hash = ''0xab''\<rparr>"]
      fresh ok player one signer idle w1 free
    by blast+
  have m_no: "moveTo ?no (Num 1) (Num 1) sample_client =
        (sample_client\<lparr>effects := effects sample_client @
           [AddPositionOverride (uuid1 ?no) 1 (Num 1, Num 1), Submit ''move'' [Num 1, Num 1],
            LogError (Error ''reverted''), RemovePositionOverride (uuid1 ?no)]\<rparr>,
         Threw (Error ''reverted''))"
    using override_hygiene [where env = ?no and c = sample_client and x = "Num 1" and y = "Num 1"
        and player = 1 and wx = "Num 1" and wy = "Num 1" and e = "Error ''reverted''"]
      fresh no player one signer idle w1 free
    by blast
  have s_ok: "spawn ?ok (Num 6) (Num 1) sample_client =
        (sample_client\<lparr>effects := effects sample_client @
           [AddPositionOverride (uuid1 ?ok) 1 (Num 1, Num 1),
            AddPlayerOverride (uuid2 ?ok) 1 True,
            Submit ''spawn'' [Num 1, Num 1], RemovePositionOverride (uuid1 ?ok),
            RemovePlayerOverride (uuid2 ?ok)]\<rparr>,
         Returned)"
    using override_hygiene [where env = ?ok and c = sample_client and x = "Num 6" and y = "Num 1"
        and player = 1 and wx = "Num 1" and wy = "Num 1" and t = "\<lparr>hash = ''0xab''\<rparr>"]
      fresh ok player one signer new w6 free
    by blast
  have s_no: "spawn ?no (Num 6) (Num 1) sample_client =
        (sample_client\<lparr>effects := effects sample_client @
           [AddPositionOverride (uuid1 ?no) 1 (Num 1, Num 1),
            AddPlayerOverride (uuid2 ?no) 1 True,
            Submit ''spawn'' [Num 1, Num 1], LogError (Error ''reverted''),
            RemovePositionOverride (uuid1 ?no), RemovePlayerOverride (uuid2 ?no)]\<rparr>,
         Threw (Error ''reverted''))"
    and s_no_live: "live_overrides (fst (spawn ?no (Num 6) (Num 1) sample_client))
        = live_overrides sample_client"
    using override_hygiene [where env = ?no and c = sample_client and x = "Num 6" and y = "Num 1"
        and player = 1 and wx = "Num 1" and wy = "Num 1" and e = "Error ''reverted''"]
      fresh no player one signer new w6 free
    by blast+
  have u: "snd (moveTo (sample_env Pending) (Num 1) (Num 1) ?unsigned) \<noteq> Suspended"
    and u_live: "live_overrides (fst (moveTo (sample_env Pending) (Num 1) (Num 1) ?unsigned))
        = live_overrides ?unsigned"
    using override_hygiene [where env = "sample_env Pending" and c = ?unsigned
        and x = "Num 1" and y = "Num 1"] fresh unsigned
    by blast+
  show ?thesis
    using fresh(1) ok(2) m_ok m_ok_live m_no s_ok s_no s_no_live unsigned u u_live
    unfolding ids by blast
qed


subsection \<open>Obstruction\<close>

text \<open>
  C6: when the target of \<open>moveTo\<close>, wrapped into the map, is a cell that an obstruction
  entity occupies, the call submits nothing to the ledger and leaves the replica of every
  component as it was; it creates no override either, and it ends.
\<close>

theorem moveTo_obstructed:
  assumes occupied: "e \<in> fst ` set (Obstruction c)"
      "getOverriddenValue (PositionOverrides c) (Position c) e = Some (Num a, Num b)"
    and target: "wrapPosition c x y = Inr (Num a, Num b)"
  shows "submissions (fst (moveTo env x y c)) = submissions c
       \<and> replica_store (fst (moveTo env x y c)) = replica_store c
       \<and> live_overrides (fst (moveTo env x y c)) = live_overrides c
       \<and> override_effects (fst (moveTo env x y c)) = override_effects c
       \<and> snd (moveTo env x y c) \<noteq> Suspended"
proof (cases "playerEntity c")
  case None
  then show ?thesis by (simp add: moveTo_def)
next
  case (Some player)
  show ?thesis
    using isObstructed_occupied [OF occupied]
    by (simp add: moveTo_unfold [OF Some target] submissions_def replica_store_def
        live_overrides_def override_effects_def)
qed

theorem moveTo_obstructed_witness:
  "2 \<in> fst ` set (Obstruction sample_client)
   \<and> getOverriddenValue (PositionOverrides sample_client) (Position sample_client) 2
        = Some (Num 3, Num 3)
   \<and> wrapPosition sample_client (Num 3) (Num 3) = Inr (Num 3, Num 3)
   \<and> submissions (fst (moveTo (sample_env Pending) (Num 3) (Num 3) sample_client)) = []
   \<and> replica_store (fst (moveTo (sample_env Pending) (Num 3) (Num 3) sample_client))
        = replica_store sample_client
   \<and> wrapPosition sample_client (Num 8) (Num (- 2)) = Inr (Num 3, Num 3)
   \<and> submissions (fst (moveTo (sample_env Pending) (Num 8) (Num (- 2)) sample_client)) = []"
proof -
  have e: "2 \<in> fst ` set (Obstruction sample_client)"
    and p: "getOverriddenValue (PositionOverrides sample_client) (Position sample_client) 2
        = Some (Num 3, Num 3)"
    and w: "wrapPosition sample_client (Num 3) (Num 3) = Inr (Num 3, Num 3)"
    and w': "wrapPosition sample_client (Num 8) (Num (- 2)) = Inr (Num 3, Num 3)"
    and s: "submissions sample_client = []"
    by (simp_all add: client_run)
  show ?thesis
    using moveTo_obstructed [OF e p w, of "sample_env Pending"]
      moveTo_obstructed [OF e p w', of "sample_env Pending"] e p w w' s
    by simp
qed

subsection \<open>Precondition violations\<close>

text \<open>
  C4, as amended: the precondition violations of the actions are handled as follows, in
  every case with no submission attempted and no override left live after the call.
  "no player" (\<open>moveTo\<close>, \<open>moveBy\<close>, \<open>spawn\<close>,
  \<open>throwBall\<close>), "no encounter" (\<open>throwBall\<close>), "already spawned" (\<open>spawn\<close>) and
  "no signer" in \<open>throwBall\<close>, \<open>attack\<close> and \<open>fleeEncounter\<close> reject at once and change
  nothing: no override is created. An obstructed target (\<open>moveTo\<close>, \<open>spawn\<close>, and
  \<open>moveBy\<close>, which hands over to \<open>moveTo\<close>) is not a rejection: the call writes a
  warning to the console and returns normally, with no override created. "no signer" in
  \<open>moveTo\<close>, \<open>moveBy\<close> and \<open>spawn\<close> rejects from inside the sending step, after the
  speculative overrides have been created; they are removed before the rejection reaches
  the caller.
\<close>

theorem precondition_violations:
  "(playerEntity c = None \<or> playerEntity c = Some 0 \<longrightarrow>
      moveTo env x y c = (c, Threw (Error ''no player''))
      \<and> moveBy env x y c = (c, Threw (Error ''no player''))
      \<and> spawn env x y c = (c, Threw (Error ''no player''))
      \<and> throwBall_client env c = (c, Rejected (Error ''no player'')))
   \<and> (playerEntity c = Some player \<and> player \<noteq> 0
        \<and> getComponentValue (Encounter c) player = None \<longrightarrow>
      throwBall_client env c = (c, Rejected (Error ''no encounter'')))
   \<and> (playerEntity c = Some player \<and> player \<noteq> 0
        \<and> getOverriddenValue (PlayerOverrides c) (Player c) player = Some True \<longrightarrow>
      spawn env x y c = (c, Threw (Error ''already spawned'')))
   \<and> (playerEntity c = Some player \<and> player \<noteq> 0 \<and> wrapPosition c x y = Inr (wx, wy)
        \<and> isObstructed c wx wy \<longrightarrow>
      moveTo env x y c =
        (c\<lparr>effects := effects c @ [Warn ''cannot move to obstructed space'']\<rparr>, Returned)
      \<and> (getOverriddenValue (PlayerOverrides c) (Player c) player \<noteq> Some True \<longrightarrow>
          spawn env x y c =
            (c\<lparr>effects := effects c @ [Warn ''cannot spawn on obstructed space'']\<rparr>, Returned)))
   \<and> (playerEntity c = Some player \<and> player \<noteq> 0
        \<and> getOverriddenValue (PositionOverrides c) (Position c) player = Some p \<longrightarrow>
      moveBy env dx dy c = moveTo env (js_add (fst p) dx) (js_add (snd p) dy) c)
   \<and> (\<not> fastTxExecutor c \<longrightarrow>
      attack_client env c = (c, Threw (Error ''no signer''))
      \<and> fleeEncounter env c = (c, Threw (Error ''no signer''))
      \<and> (playerEntity c = Some player \<and> player \<noteq> 0
           \<and> getComponentValue (Encounter c) player \<noteq> None \<longrightarrow>
          throwBall_client env c = (c, Rejected (Error ''no signer''))))
   \<and> (playerEntity c = Some player \<and> player \<noteq> 0 \<and> wrapPosition c x y = Inr (wx, wy)
        \<and> \<not> isObstructed c wx wy \<and> \<not> fastTxExecutor c \<longrightarrow>
      (getComponentValue (Encounter c) player = None \<longrightarrow>
         moveTo env x y c =
           (c\<lparr>PositionOverrides := removeOverride (uuid1 env)
                  (addOverride (uuid1 env) player (wx, wy) (PositionOverrides c)),
              effects := effects c @ [AddPositionOverride (uuid1 env) player (wx, wy),
                  RemovePositionOverride (uuid1 env)]\<rparr>,
            Threw (Error ''no signer'')))
      \<and> (getOverriddenValue (PlayerOverrides c) (Player c) player \<noteq> Some True \<longrightarrow>
         spawn env x y c =
           (c\<lparr>PositionOverrides := removeOverride (uuid1 env)
                  (addOverride (uuid1 env) player (wx, wy) (PositionOverrides c)),
              PlayerOverrides := removeOverride (uuid2 env)
                  (addOverride (uuid2 env) player True (PlayerOverrides c)),
              effects := effects c @ [AddPositionOverride (uuid1 env) player (wx, wy),
                  AddPlayerOverride (uuid2 env) player True,
                  RemovePositionOverride (uuid1 env), RemovePlayerOverride (uuid2 env)]\<rparr>,
            Threw (Error ''no signer'')))
      \<and> submissions (fst (moveTo env x y c)) = submissions c
      \<and> submissions (fst (spawn env x y c)) = submissions c
      \<and> (uuid1 env \<notin> oid ` set (PositionOverrides c)
           \<and> uuid2 env \<notin> oid ` set (PlayerOverrides c) \<longrightarrow>
          live_overrides (fst (moveTo env x y c)) = live_overrides c
          \<and> live_overrides (fst (spawn env x y c)) = live_overrides c))"
proof (intro conjI impI; (elim conjE)?)
  show "moveTo env x y c = (c, Threw (Error ''no player''))"
    if "playerEntity c = None \<or> playerEntity c = Some 0"
    using that by (rule moveTo_no_player)
  show "moveBy env x y c = (c, Threw (Error ''no player''))"
    if "playerEntity c = None \<or> playerEntity c = Some 0"
    using that by (rule moveBy_no_player)
  show "spawn env x y c = (c, Threw (Error ''no player''))"
    if "playerEntity c = None \<or> playerEntity c = Some 0"
    using that by (rule spawn_no_player)
  show "throwBall_client env c = (c, Rejected (Error ''no player''))"
    if "playerEntity c = None \<or> playerEntity c = Some 0"
    using that by (rule throwBall_client_no_player)
  show "throwBall_client env c = (c, Rejected (Error ''no encounter''))"
    if "playerEntity c = Some player" "player \<noteq> 0" "getComponentValue (Encounter c) player = None"
    using that by (rule throwBall_client_no_encounter)
  show "spawn env x y c = (c, Threw (Error ''already spawned''))"
    if "playerEntity c = Some player" "player \<noteq> 0"
      "getOverriddenValue (PlayerOverrides c) (Player c) player = Some True"
    using that by (rule spawn_already_spawned)
  show "moveTo env x y c =
        (c\<lparr>effects := effects c @ [Warn ''cannot move to obstructed space'']\<rparr>, Returned)"
    if "playerEntity c = Some player" "player \<noteq> 0" "wrapPosition c x y = Inr (wx, wy)"
      "isObstructed c wx wy"
    using that by (simp add: moveTo_unfold)
  show "spawn env x y c =
            (c\<lparr>effects := effects c @ [Warn ''cannot spawn on obstructed space'']\<rparr>, Returned)"
    if "playerEntity c = Some player" "player \<noteq> 0" "wrapPosition c x y = Inr (wx, wy)"
      "isObstructed c wx wy" "getOverriddenValue (PlayerOverrides c) (Player c) player \<noteq> Some True"
    using that by (simp add: spawn_unfold)
  show "moveBy env dx dy c = moveTo env (js_add (fst p) dx) (js_add (snd p) dy) c"
    if "playerEntity c = Some player" "player \<noteq> 0"
      "getOverriddenValue (PositionOverrides c) (Position c) player = Some p"
    using that by (rule moveBy_moveTo)
  show "attack_client env c = (c, Threw (Error ''no signer''))" if "\<not> fastTxExecutor c"
    using that by (simp add: attack_client_def send_and_await_no_signer)
  show "fleeEncounter env c = (c, Threw (Error ''no signer''))" if "\<not> fastTxExecutor c"
    using that by (simp add: fleeEncounter_def send_and_await_no_signer)
  show "throwBall_client env c = (c, Rejected (Error ''no signer''))"
    if "\<not> fastTxExecutor c" "playerEntity c = Some player" "player \<noteq> 0"
      "getComponentValue (Encounter c) player \<noteq> None"
    using that by (simp add: throwBall_client_no_signer)
next
  assume a: "playerEntity c = Some player" "player \<noteq> 0" "wrapPosition c x y = Inr (wx, wy)"
      "\<not> isObstructed c wx wy" "\<not> fastTxExecutor c"
  show "moveTo env x y c =
           (c\<lparr>PositionOverrides := removeOverride (uuid1 env)
                  (addOverride (uuid1 env) player (wx, wy) (PositionOverrides c)),
              effects := effects c @ [AddPositionOverride (uuid1 env) player (wx, wy),
                  RemovePositionOverride (uuid1 env)]\<rparr>,
            Threw (Error ''no signer''))"
    if "getComponentValue (Encounter c) player = None"
    using a that by (simp add: moveTo_no_signer)
  show "spawn env x y c =
           (c\<lparr>PositionOverrides := removeOverride (uuid1 env)
                  (addOverride (uuid1 env) player (wx, wy) (PositionOverrides c)),
              PlayerOverrides := removeOverride (uuid2 env)
                  (addOverride (uuid2 env) player True (PlayerOverrides c)),
              effects := effects c @ [AddPositionOverride (uuid1 env) player (wx, wy),
                  AddPlayerOverride (uuid2 env) player True,
                  RemovePositionOverride (uuid1 env), RemovePlayerOverride (uuid2 env)]\<rparr>,
            Threw (Error ''no signer''))"
    if "getOverriddenValue (PlayerOverrides c) (Player c) player \<noteq> Some True"
    using a that by (simp add: spawn_no_signer)
  show m: "submissions (fst (moveTo env x y c)) = submissions c"
    using a
    by (simp add: moveTo_unfold [OF a(1) a(3)] try_finally_no_signer fastTxExecutor_addOverride
        submissions_def Position_addOverride_def Position_removeOverride_def)
  show s: "submissions (fst (spawn env x y c)) = submissions c"
    using a
    by (simp add: spawn_unfold [OF a(1) a(3)] try_finally_no_signer fastTxExecutor_addOverride
        submissions_def Position_addOverride_def Position_removeOverride_def
        Player_addOverride_def Player_removeOverride_def)
  assume fresh: "uuid1 env \<notin> oid ` set (PositionOverrides c)"
    "uuid2 env \<notin> oid ` set (PlayerOverrides c)"
  have "snd (moveTo env x y c) \<noteq> Suspended"
    using a(5) by (simp add: moveTo_settles)
  then show "live_overrides (fst (moveTo env x y c)) = live_overrides c"
    using fresh by (simp add: moveTo_overrides)
  have "snd (spawn env x y c) \<noteq> Suspended"
    using a(5) by (simp add: spawn_settles)
  then show "live_overrides (fst (spawn env x y c)) = live_overrides c"
    using fresh by (simp add: spawn_overrides)
qed


theorem precondition_violations_witness:
  "playerEntity (sample_client\<lparr>playerEntity := None\<rparr>) = None
   \<and> spawn (sample_env Pending) (Num 3) (Num 3) (sample_client\<lparr>playerEntity := None\<rparr>) =
        (sample_client\<lparr>playerEntity := None\<rparr>, Threw (Error ''no player''))
   \<and> throwBall_client (sample_env Pending) (sample_client\<lparr>playerEntity := None\<rparr>) =
        (sample_client\<lparr>playerEntity := None\<rparr>, Rejected (Error ''no player''))
   \<and> getComponentValue (Encounter sample_client) 1 = None
   \<and> throwBall_client (sample_env Pending) sample_client =
        (sample_client, Rejected (Error ''no encounter''))
   \<and> getOverriddenValue (PlayerOverrides (sample_client\<lparr>Player := [(1, True)]\<rparr>))
        (Player (sample_client\<lparr>Player := [(1, True)]\<rparr>)) 1 = Some True
   \<and> spawn (sample_env Pending) (Num 1) (Num 1) (sample_client\<lparr>Player := [(1, True)]\<rparr>) =
        (sample_client\<lparr>Player := [(1, True)]\<rparr>, Threw (Error ''already spawned''))
   \<and> isObstructed sample_client (Num 3) (Num 3)
   \<and> moveTo (sample_env Pending) (Num 3) (Num 3) sample_client =
        (sample_client\<lparr>effects := effects sample_client @ [Warn ''cannot move to obstructed space'']\<rparr>,
         Returned)
   \<and> moveBy (sample_env Pending) (Num 2) (Num 3) sample_client =
        (sample_client\<lparr>effects := effects sample_client @ [Warn ''cannot move to obstructed space'']\<rparr>,
         Returned)
   \<and> spawn (sample_env Pending) (Num 3) (Num 3) sample_client =
        (sample_client\<lparr>effects := effects sample_client @ [Warn ''cannot spawn on obstructed space'']\<rparr>,
         Returned)
   \<and> \<not> fastTxExecutor (sample_client\<lparr>fastTxExecutor := False\<rparr>)
   \<and> attack_client (sample_env Pending) (sample_client\<lparr>fastTxExecutor := False\<rparr>) =
        (sample_client\<lparr>fastTxExecutor := False\<rparr>, Threw (Error ''no signer''))
   \<and> fleeEncounter (sample_env Pending) (sample_client\<lparr>fastTxExecutor := False\<rparr>) =
        (sample_client\<lparr>fastTxExecutor := False\<rparr>, Threw (Error ''no signer''))
   \<and> throwBall_client (sample_env Pending)
          (sample_client\<lparr>fastTxExecutor := False, Encounter := [(1, [''0x09''])]\<rparr>) =
        (sample_client\<lparr>fastTxExecutor := False, Encounter := [(1, [''0x09''])]\<rparr>,
         Rejected (Error ''no signer''))
   \<and> snd (moveTo (sample_env Pending) (Num 1) (Num 1) (sample_client\<lparr>fastTxExecutor := False\<rparr>))
        = Threw (Error ''no signer'')
   \<and> submissions (fst (moveTo (sample_env Pending) (Num 1) (Num 1)
          (sample_client\<lparr>fastTxExecutor := False\<rparr>))) = []
   \<and> live_overrides (fst (spawn (sample_env Pending) (Num 1) (Num 1)
          (sample_client\<lparr>fastTxExecutor := False\<rparr>))) = ([], [])"
proof -
  let ?env = "sample_env Pending"
  let ?none = "sample_client\<lparr>playerEntity := None\<rparr>"
  let ?spawned = "sample_client\<lparr>Player := [(1, True)]\<rparr>"
  let ?unsigned = "sample_client\<lparr>fastTxExecutor := False\<rparr>"
  let ?engaged = "sample_client\<lparr>fastTxExecutor := False, Encounter := [(1, [''0x09''])]\<rparr>"
  have one: "(1::nat) \<noteq> 0" by simp
  have none: "playerEntity ?none = None"
    by simp
  have player: "playerEntity sample_client = Some 1" "playerEntity ?spawned = Some 1"
    "playerEntity ?engaged = Some 1" "playerEntity ?unsigned = Some 1"
    by (simp_all add: sample_client_def)
  have spawned: "getOverriddenValue (PlayerOverrides ?spawned) (Player ?spawned) 1 = Some True"
    by (simp add: client_run)
  have w3: "wrapPosition sample_client (Num 3) (Num 3) = Inr (Num 3, Num 3)"
    and ob: "isObstructed sample_client (Num 3) (Num 3)"
    and here: "getOverriddenValue (PositionOverrides sample_client) (Position sample_client) 1
        = Some (Num 1, Num 0)"
    and out: "getComponentValue (Encounter sample_client) 1 = None"
    and new: "getOverriddenValue (PlayerOverrides sample_client) (Player sample_client) 1
        \<noteq> Some True"
    by (simp_all add: client_run)
  have w1: "wrapPosition ?unsigned (Num 1) (Num 1) = Inr (Num 1, Num 1)"
    and free: "\<not> isObstructed ?unsigned (Num 1) (Num 1)"
    and idle: "getComponentValue (Encounter ?unsigned) 1 = None"
    and fresh: "getOverriddenValue (PlayerOverrides ?unsigned) (Player ?unsigned) 1 \<noteq> Some True"
    and engaged: "getComponentValue (Encounter ?engaged) 1 \<noteq> None"
    by (simp_all add: client_run)
  have unsigned: "\<not> fastTxExecutor ?unsigned" "\<not> fastTxExecutor ?engaged"
    by simp_all
  have ids: "uuid1 ?env \<notin> oid ` set (PositionOverrides ?unsigned)"
    "uuid2 ?env \<notin> oid ` set (PlayerOverrides ?unsigned)"
    by (simp_all add: sample_client_def)
  have start: "submissions ?unsigned = []" "live_overrides ?unsigned = ([], [])"
    by (simp_all add: client_run)
  have a: "spawn ?env (Num 3) (Num 3) ?none = (?none, Threw (Error ''no player''))"
    and a': "throwBall_client ?env ?none = (?none, Rejected (Error ''no player''))"
    using precondition_violations [where c = ?none and env = ?env and x = "Num 3" and y = "Num 3"]
      none by blast+
  have b: "spawn ?env (Num 1) (Num 1) ?spawned = (?spawned, Threw (Error ''already spawned''))"
    using precondition_violations [where c = ?spawned and env = ?env and x = "Num 1"
        and y = "Num 1" and player = 1] player spawned one by blast
  have c: "moveTo ?env (Num 3) (Num 3) sample_client =
      (sample_client\<lparr>effects := effects sample_client @ [Warn ''cannot move to obstructed space'']\<rparr>,
       Returned)"
    and c': "throwBall_client ?env sample_client = (sample_client, Rejected (Error ''no encounter''))"
    and c'': "moveBy ?env (Num 2) (Num 3) sample_client =
      moveTo ?env (js_add (fst (Num 1, Num 0)) (Num 2)) (js_add (snd (Num 1, Num 0)) (Num 3))
        sample_client"
    and c3: "spawn ?env (Num 3) (Num 3) sample_client =
      (sample_client\<lparr>effects := effects sample_client @ [Warn ''cannot spawn on obstructed space'']\<rparr>,
       Returned)"
    using precondition_violations [where c = sample_client and env = ?env and x = "Num 3"
        and y = "Num 3" and player = 1 and wx = "Num 3" and wy = "Num 3"
        and p = "(Num 1, Num 0)" and dx = "Num 2" and dy = "Num 3"] player w3 ob out here new one
    by blast+
  from c c'' have d: "moveBy ?env (Num 2) (Num 3) sample_client =
      (sample_client\<lparr>effects := effects sample_client @ [Warn ''cannot move to obstructed space'']\<rparr>,
       Returned)"
    by simp
  have e: "moveTo ?env (Num 1) (Num 1) ?unsigned =
        (?unsigned\<lparr>PositionOverrides := removeOverride (uuid1 ?env)
              (addOverride (uuid1 ?env) 1 (Num 1, Num 1) (PositionOverrides ?unsigned)),
            effects := effects ?unsigned @ [AddPositionOverride (uuid1 ?env) 1 (Num 1, Num 1),
              RemovePositionOverride (uuid1 ?env)]\<rparr>,
         Threw (Error ''no signer''))"
    and f: "submissions (fst (moveTo ?env (Num 1) (Num 1) ?unsigned)) = submissions ?unsigned"
    and g: "live_overrides (fst (spawn ?env (Num 1) (Num 1) ?unsigned)) = live_overrides ?unsigned"
    and h: "attack_client ?env ?unsigned = (?unsigned, Threw (Error ''no signer''))"
    and i: "fleeEncounter ?env ?unsigned = (?unsigned, Threw (Error ''no signer''))"
    using precondition_violations [where c = ?unsigned and env = ?env and x = "Num 1"
        and y = "Num 1" and player = 1 and wx = "Num 1" and wy = "Num 1"]
      player w1 free idle fresh unsigned ids one
    by blast+
  have j: "throwBall_client ?env ?engaged = (?engaged, Rejected (Error ''no signer''))"
    using precondition_violations [where c = ?engaged and env = ?env and player = 1]
      player engaged unsigned one
    by blast
  from e have e': "snd (moveTo ?env (Num 1) (Num 1) ?unsigned) = Threw (Error ''no signer'')"
    by simp
  show ?thesis
    using none a a' out c' spawned b ob c d c3 unsigned(1) h i j e' f g start
    by simp
qed

text \<open>
  C4 as stated fails twice: \<open>moveTo\<close> onto an obstructed cell returns normally instead of
  rejecting, and \<open>moveTo\<close> without a signer creates an override before it rejects.
\<close>

theorem precondition_violations_counterexample:
  "isObstructed sample_client (Num 3) (Num 3)
   \<and> snd (moveTo (sample_env Pending) (Num 3) (Num 3) sample_client) = Returned
   \<and> \<not> fastTxExecutor (sample_client\<lparr>fastTxExecutor := False\<rparr>)
   \<and> snd (moveTo (sample_env Pending) (Num 1) (Num 1) (sample_client\<lparr>fastTxExecutor := False\<rparr>))
        = Threw (Error ''no signer'')
   \<and> AddPositionOverride ''id-1'' 1 (Num 1, Num 1)
        \<in> set (effects (fst (moveTo (sample_env Pending) (Num 1) (Num 1)
              (sample_client\<lparr>fastTxExecutor := False\<rparr>))))"
proof -
  have "isObstructed sample_client (Num 3) (Num 3)"
    by (simp add: client_run)
  then show ?thesis
    by (simp add: run_moveTo_obstructed run_moveTo_no_signer)
qed

subsection \<open>Wrapping\<close>

text \<open>
  C7, as amended: on a map of width \<open>W\<close> and height \<open>H\<close>, both not zero, \<open>moveTo(W, 0)\<close>
  and \<open>moveTo(0, 0)\<close> wrap to the same target \<open>(0, 0)\<close>, pass or fail the same
  obstruction and encounter checks, create the same speculative override, end the same way
  under the same answers of the ledger, and leave the same overrides and replica. They do
  not hand the same operation to the ledger: the source passes the requested coordinates,
  so one submits \<open>move(W, 0)\<close> and the other \<open>move(0, 0)\<close>.
\<close>

theorem moveTo_wrapping:
  assumes cfg: "MapConfig c = Some \<lparr>width = Num W, height = Num H\<rparr>"
    and W: "W \<noteq> 0" and H: "H \<noteq> 0"
  shows "wrapPosition c (Num W) (Num 0) = Inr (Num 0, Num 0)
       \<and> wrapPosition c (Num 0) (Num 0) = Inr (Num 0, Num 0)
       \<and> snd (moveTo env (Num W) (Num 0) c) = snd (moveTo env (Num 0) (Num 0) c)
       \<and> live_overrides (fst (moveTo env (Num W) (Num 0) c))
           = live_overrides (fst (moveTo env (Num 0) (Num 0) c))
       \<and> replica_store (fst (moveTo env (Num W) (Num 0) c))
           = replica_store (fst (moveTo env (Num 0) (Num 0) c))
       \<and> filter (\<lambda>e. \<not> is_Submit e) (effects (fst (moveTo env (Num W) (Num 0) c)))
           = filter (\<lambda>e. \<not> is_Submit e) (effects (fst (moveTo env (Num 0) (Num 0) c)))
       \<and> (submissions (fst (moveTo env (Num W) (Num 0) c)) = submissions c
            \<and> submissions (fst (moveTo env (Num 0) (Num 0) c)) = submissions c
          \<or> submissions (fst (moveTo env (Num W) (Num 0) c))
               = submissions c @ [Submit ''move'' [Num W, Num 0]]
            \<and> submissions (fst (moveTo env (Num 0) (Num 0) c))
               = submissions c @ [Submit ''move'' [Num 0, Num 0]])"
proof -
  have wW: "wrapPosition c (Num W) (Num 0) = Inr (Num 0, Num 0)"
    using wrap_width [OF W] wrap_zero [OF H] by (simp add: wrapPosition_def cfg)
  have w0: "wrapPosition c (Num 0) (Num 0) = Inr (Num 0, Num 0)"
    using wrap_zero [OF W] wrap_zero [OF H] by (simp add: wrapPosition_def cfg)
  show ?thesis
  proof (cases "playerEntity c")
    case None
    then show ?thesis
      using wW w0 by (simp add: moveTo_def)
  next
    case (Some player)
    show ?thesis
      using wW w0
      by (simp add: moveTo_unfold [OF Some wW] moveTo_unfold [OF Some w0] attempt_shape
          fastTxExecutor_addOverride Let_def live_overrides_def replica_store_def
          submissions_def Position_addOverride_def send_and_await_completion [of _ _ _ _ "[]"]
          split: settled.split)
  qed
qed


theorem moveTo_wrapping_witness:
  "MapConfig sample_client = Some \<lparr>width = Num 5, height = Num 5\<rparr>
   \<and> wrapPosition sample_client (Num 5) (Num 0) = Inr (Num 0, Num 0)
   \<and> snd (moveTo (sample_env (Fulfilled \<lparr>hash = ''0xab''\<rparr>)) (Num 5) (Num 0) sample_client)
       = snd (moveTo (sample_env (Fulfilled \<lparr>hash = ''0xab''\<rparr>)) (Num 0) (Num 0) sample_client)
   \<and> submissions (fst (moveTo (sample_env (Fulfilled \<lparr>hash = ''0xab''\<rparr>)) (Num 5) (Num 0)
        sample_client)) = [Submit ''move'' [Num 5, Num 0]]
   \<and> submissions (fst (moveTo (sample_env (Fulfilled \<lparr>hash = ''0xab''\<rparr>)) (Num 0) (Num 0)
        sample_client)) = [Submit ''move'' [Num 0, Num 0]]"
proof -
  have cfg: "MapConfig sample_client = Some \<lparr>width = Num 5, height = Num 5\<rparr>"
    by (simp add: sample_client_def)
  have five: "(5::int) \<noteq> 0" by simp
  have "submissions (fst (moveTo (sample_env (Fulfilled \<lparr>hash = ''0xab''\<rparr>)) (Num 5) (Num 0)
        sample_client)) = [Submit ''move'' [Num 5, Num 0]]"
    by (simp add: run_moveTo_W submissions_def)
  moreover have "submissions (fst (moveTo (sample_env (Fulfilled \<lparr>hash = ''0xab''\<rparr>)) (Num 0) (Num 0)
        sample_client)) = [Submit ''move'' [Num 0, Num 0]]"
    by (simp add: run_moveTo_0 submissions_def)
  ultimately show ?thesis
    using moveTo_wrapping [OF cfg five five, of "sample_env (Fulfilled \<lparr>hash = ''0xab''\<rparr>)"] cfg
    by simp
qed

text \<open>
  C7 as stated fails: on a 5 by 5 map the two calls differ, since \<open>moveTo(5, 0)\<close> submits
  \<open>move(5, 0)\<close> and \<open>moveTo(0, 0)\<close> does not.
\<close>

theorem moveTo_wrapping_counterexample:
  "MapConfig sample_client = Some \<lparr>width = Num 5, height = Num 5\<rparr>
   \<and> moveTo (sample_env (Fulfilled \<lparr>hash = ''0xab''\<rparr>)) (Num 5) (Num 0) sample_client
       \<noteq> moveTo (sample_env (Fulfilled \<lparr>hash = ''0xab''\<rparr>)) (Num 0) (Num 0) sample_client
   \<and> Submit ''move'' [Num 5, Num 0]
       \<in> set (effects (fst (moveTo (sample_env (Fulfilled \<lparr>hash = ''0xab''\<rparr>)) (Num 5) (Num 0)
            sample_client)))
   \<and> Submit ''move'' [Num 5, Num 0]
       \<notin> set (effects (fst (moveTo (sample_env (Fulfilled \<lparr>hash = ''0xab''\<rparr>)) (Num 0) (Num 0)
            sample_client)))"
proof -
  let ?A = "moveTo (sample_env (Fulfilled \<lparr>hash = ''0xab''\<rparr>)) (Num 5) (Num 0) sample_client"
  let ?B = "moveTo (sample_env (Fulfilled \<lparr>hash = ''0xab''\<rparr>)) (Num 0) (Num 0) sample_client"
  have cfg: "MapConfig sample_client = Some \<lparr>width = Num 5, height = Num 5\<rparr>"
    by (simp add: sample_client_def)
  have a: "Submit ''move'' [Num 5, Num 0] \<in> set (effects (fst ?A))"
    by (simp add: run_moveTo_W)
  have b: "Submit ''move'' [Num 5, Num 0] \<notin> set (effects (fst ?B))"
    by (simp add: run_moveTo_0)
  from a b have "?A \<noteq> ?B"
    by auto
  with cfg a b show ?thesis
    by blast
qed

end
